theory Spec2Isabelle
  imports Main "HOL-Library.Word"
begin

unbundle bit_operations_syntax

section \<open>Destination memory and source expressions\<close>

text \<open>
  The functors of \<^verbatim>\<open>eval_functors.hpp\<close> write through a raw pointer
  (\<^verbatim>\<open>lhs.memory_start()\<close>) and read the source through \<^verbatim>\<open>rhs[i]\<close>,
  \<^verbatim>\<open>rhs.read_flat(i)\<close> or \<^verbatim>\<open>rhs.load(i)\<close>. The destination memory is a
  function from indices to elements. A source expression may refer to the destination's
  container (\<^verbatim>\<open>a += a\<close>), so a read takes the current destination memory as well as
  the index. Indices are \<^verbatim>\<open>std::size_t\<close> in the source; they index buffers that
  exist in memory, so they stay far below \<open>2 ^ 64\<close> and are natural numbers here. A
  functor is built for a range with \<open>first \<le> last\<close> (the evaluator passes 0 and the
  size of the destination), so that \<^verbatim>\<open>_size = last - first\<close> does not wrap around.
\<close>

type_synonym 'a mem = "nat \<Rightarrow> 'a"

type_synonym 'a reader = "'a mem \<Rightarrow> nat \<Rightarrow> 'a"

text \<open>The global switches the functors read (\<^verbatim>\<open>unroll_normal_loops\<close>,
  \<^verbatim>\<open>streaming\<close>, \<^verbatim>\<open>padding\<close>, \<^verbatim>\<open>cache_size\<close>).\<close>

record config =
  unroll_normal_loops :: bool
  streaming :: bool
  padding :: bool
  cache_size :: nat

section \<open>Scalar functors\<close>

text \<open>One statement \<^verbatim>\<open>lhs[i] op= rhs[i]\<close>; \<open>upd\<close> is the update operator applied to
  the old destination value and the value read from the source.\<close>

definition assign_at :: "('a \<Rightarrow> 'a \<Rightarrow> 'a) \<Rightarrow> 'a reader \<Rightarrow> nat \<Rightarrow> 'a mem \<Rightarrow> 'a mem" where
  "assign_at upd rhs i lhs = lhs(i := upd (lhs i) (rhs lhs i))"

text \<open>\<^verbatim>\<open>for (i = first; i < iend; i += 4) { four statements }\<close>\<close>

function unrolled_loop ::
  "('a \<Rightarrow> 'a \<Rightarrow> 'a) \<Rightarrow> 'a reader \<Rightarrow> nat \<Rightarrow> nat \<Rightarrow> 'a mem \<Rightarrow> 'a mem" where
  "unrolled_loop upd rhs iend i lhs =
     (if i < iend
      then unrolled_loop upd rhs iend (i + 4)
             (assign_at upd rhs (i + 3)
               (assign_at upd rhs (i + 2)
                 (assign_at upd rhs (i + 1)
                   (assign_at upd rhs i lhs))))
      else lhs)"
  by pat_completeness auto
termination
  by (relation "measure (\<lambda>(upd, rhs, iend, i, lhs). iend - i)") auto

declare unrolled_loop.simps [simp del]

text \<open>\<^verbatim>\<open>for (i = iend; i < last; ++i) { one statement }\<close>\<close>

function remainder_loop ::
  "('a \<Rightarrow> 'a \<Rightarrow> 'a) \<Rightarrow> 'a reader \<Rightarrow> nat \<Rightarrow> nat \<Rightarrow> 'a mem \<Rightarrow> 'a mem" where
  "remainder_loop upd rhs lasti i lhs =
     (if i < lasti
      then remainder_loop upd rhs lasti (i + 1) (assign_at upd rhs i lhs)
      else lhs)"
  by pat_completeness auto
termination
  by (relation "measure (\<lambda>(upd, rhs, lasti, i, lhs). lasti - i)") auto

declare remainder_loop.simps [simp del]

text \<open>\<^verbatim>\<open>n & std::size_t(-k)\<close> clears the low bits of \<open>n\<close>: for \<open>k\<close> a power of two it
  is \<open>n\<close> rounded down to a multiple of \<open>k\<close> (the lemmas \<open>and_minus_4_round_down\<close>
  and \<open>and_minus_power_round_down\<close> below check this on 64-bit words).\<close>

definition round_down :: "nat \<Rightarrow> nat \<Rightarrow> nat" where
  "round_down k n = n - n mod k"

text \<open>The body shared by \<^verbatim>\<open>AssignAdd\<close>, \<^verbatim>\<open>AssignSub\<close>, \<^verbatim>\<open>AssignMul\<close> and
  \<^verbatim>\<open>AssignDiv\<close>, which differ in the operator only: \<^verbatim>\<open>_size = last - first\<close>, the
  unrolled loop up to \<open>iend\<close> when unrolling is on, then the one-by-one loop. The
  operator is a parameter; the element type's own \<open>+\<close>, \<open>-\<close>, \<open>*\<close> and division
  are put in below, and nothing proved of the functors depends on which operator it is.\<close>

definition scalar_functor ::
  "config \<Rightarrow> ('a \<Rightarrow> 'a \<Rightarrow> 'a) \<Rightarrow> 'a reader \<Rightarrow> nat \<Rightarrow> nat \<Rightarrow> 'a mem \<Rightarrow> 'a mem" where
  "scalar_functor cfg upd rhs first lasti lhs =
     (let sz = lasti - first in
      if unroll_normal_loops cfg
      then (let iend = first + round_down 4 sz in
            remainder_loop upd rhs lasti iend (unrolled_loop upd rhs iend first lhs))
      else remainder_loop upd rhs lasti first lhs)"

text \<open>\<^verbatim>\<open>Assign\<close> has no range: it runs from 0 to \<^verbatim>\<open>etl::size(lhs)\<close> and stores
  \<^verbatim>\<open>rhs.read_flat(i)\<close>.\<close>

definition Assign :: "config \<Rightarrow> 'a reader \<Rightarrow> nat \<Rightarrow> 'a mem \<Rightarrow> 'a mem" where
  "Assign cfg rhs sz lhs = scalar_functor cfg (\<lambda>old v. v) rhs 0 sz lhs"

definition AssignAdd :: "config \<Rightarrow> ('a::plus) reader \<Rightarrow> nat \<Rightarrow> nat \<Rightarrow> 'a mem \<Rightarrow> 'a mem" where
  "AssignAdd cfg rhs first lasti lhs = scalar_functor cfg (+) rhs first lasti lhs"

definition AssignSub :: "config \<Rightarrow> ('a::minus) reader \<Rightarrow> nat \<Rightarrow> nat \<Rightarrow> 'a mem \<Rightarrow> 'a mem" where
  "AssignSub cfg rhs first lasti lhs = scalar_functor cfg (-) rhs first lasti lhs"

definition AssignMul :: "config \<Rightarrow> ('a::times) reader \<Rightarrow> nat \<Rightarrow> nat \<Rightarrow> 'a mem \<Rightarrow> 'a mem" where
  "AssignMul cfg rhs first lasti lhs = scalar_functor cfg (*) rhs first lasti lhs"

definition AssignDiv :: "config \<Rightarrow> ('a::divide) reader \<Rightarrow> nat \<Rightarrow> nat \<Rightarrow> 'a mem \<Rightarrow> 'a mem" where
  "AssignDiv cfg rhs first lasti lhs = scalar_functor cfg divide rhs first lasti lhs"

section \<open>Vectorized functors\<close>

text \<open>A vector register of \<open>W\<close> lanes (\<^verbatim>\<open>IT::size\<close>) is a list of \<open>W\<close> elements.
  \<^verbatim>\<open>load(i)\<close> reads the lanes \<open>i, ..., i + W - 1\<close>; \<^verbatim>\<open>store(v, i)\<close> and
  \<^verbatim>\<open>stream(v, i)\<close> write them (a non-temporal store bypasses the cache and writes the
  same cells).\<close>

definition load :: "nat \<Rightarrow> (nat \<Rightarrow> 'a) \<Rightarrow> nat \<Rightarrow> 'a list" where
  "load W src i = map (\<lambda>k. src (i + k)) [0..<W]"

definition store :: "nat \<Rightarrow> 'a list \<Rightarrow> nat \<Rightarrow> 'a mem \<Rightarrow> 'a mem" where
  "store W v i lhs = (\<lambda>j. if i \<le> j \<and> j < i + W then v ! (j - i) else lhs j)"

definition stream :: "nat \<Rightarrow> 'a list \<Rightarrow> nat \<Rightarrow> 'a mem \<Rightarrow> 'a mem" where
  "stream W v i lhs = store W v i lhs"

text \<open>Modelled from the spec: the intrinsics \<^verbatim>\<open>vect_impl::add\<close>, \<^verbatim>\<open>sub\<close>,
  \<^verbatim>\<open>mul<Cx>\<close> and \<^verbatim>\<open>div<Cx>\<close> are not part of the sources at hand; a vector
  operator combines the destination lanes with the source lanes, lane by lane, with the
  operator of the scalar statement. The statement is
  \<^verbatim>\<open>lhs.store(vect_impl::op(lhs_load(i), rhs_load(i)), i)\<close>.\<close>

definition vec_op_at :: "('a \<Rightarrow> 'a \<Rightarrow> 'a) \<Rightarrow> nat \<Rightarrow> 'a reader \<Rightarrow> nat \<Rightarrow> 'a mem \<Rightarrow> 'a mem" where
  "vec_op_at upd W rhs i lhs = store W (map2 upd (load W lhs i) (load W (rhs lhs) i)) i lhs"

text \<open>\<^verbatim>\<open>lhs.store(rhs_load(i), i)\<close> and \<^verbatim>\<open>lhs.stream(rhs_load(i), i)\<close>\<close>

definition vec_store_at :: "nat \<Rightarrow> 'a reader \<Rightarrow> nat \<Rightarrow> 'a mem \<Rightarrow> 'a mem" where
  "vec_store_at W rhs i lhs = store W (load W (rhs lhs) i) i lhs"

definition vec_stream_at :: "nat \<Rightarrow> 'a reader \<Rightarrow> nat \<Rightarrow> 'a mem \<Rightarrow> 'a mem" where
  "vec_stream_at W rhs i lhs = stream W (load W (rhs lhs) i) i lhs"

text \<open>The loops return the index they stop at together with the memory, since the next
  loop goes on from that index. The lane count \<open>W\<close> of a SIMD register is positive; the
  loops test it so that the recursion is total.

  \<^verbatim>\<open>for (; i + IT::size * 4 - 1 < last; i += IT::size * 4) { four vector statements }\<close>\<close>

function compound_loop4 ::
  "(nat \<Rightarrow> 'a mem \<Rightarrow> 'a mem) \<Rightarrow> nat \<Rightarrow> nat \<Rightarrow> nat \<Rightarrow> 'a mem \<Rightarrow> nat \<times> 'a mem" where
  "compound_loop4 stmt W lasti i lhs =
     (if 0 < W \<and> i + W * 4 - 1 < lasti
      then compound_loop4 stmt W lasti (i + W * 4)
             (stmt (i + 3 * W) (stmt (i + 2 * W) (stmt (i + 1 * W) (stmt i lhs))))
      else (i, lhs))"
  by pat_completeness auto
termination
  by (relation "measure (\<lambda>(stmt, W, lasti, i, lhs). lasti - i)") auto

declare compound_loop4.simps [simp del]

text \<open>\<^verbatim>\<open>for (; i + IT::size - 1 < last; i += IT::size) { one vector statement }\<close>\<close>

function compound_loop1 ::
  "(nat \<Rightarrow> 'a mem \<Rightarrow> 'a mem) \<Rightarrow> nat \<Rightarrow> nat \<Rightarrow> nat \<Rightarrow> 'a mem \<Rightarrow> nat \<times> 'a mem" where
  "compound_loop1 stmt W lasti i lhs =
     (if 0 < W \<and> i + W - 1 < lasti
      then compound_loop1 stmt W lasti (i + W) (stmt i lhs)
      else (i, lhs))"
  by pat_completeness auto
termination
  by (relation "measure (\<lambda>(stmt, W, lasti, i, lhs). lasti - i)") auto

declare compound_loop1.simps [simp del]

text \<open>\<^verbatim>\<open>for (; remainder && i < last; ++i) { one scalar statement }\<close>\<close>

definition tail_loop ::
  "bool \<Rightarrow> ('a \<Rightarrow> 'a \<Rightarrow> 'a) \<Rightarrow> 'a reader \<Rightarrow> nat \<Rightarrow> nat \<Rightarrow> 'a mem \<Rightarrow> 'a mem" where
  "tail_loop remainder upd rhs lasti i lhs =
     (if remainder then remainder_loop upd rhs lasti i lhs else lhs)"

text \<open>Modelled from the spec: \<^verbatim>\<open>alloc_size<T>(size)\<close> is not part of the sources at
  hand; with padding on, a container is allocated up to the next multiple of the lane count
  \<open>D\<close> of the build's vector width, and without padding it has exactly as many elements
  as its size.\<close>

definition alloc_size :: "config \<Rightarrow> nat \<Rightarrow> nat \<Rightarrow> nat" where
  "alloc_size cfg D sz =
     (if padding cfg
      then sz + (if sz mod D = 0 then 0 else D - sz mod D)
      else sz)"

text \<open>\<^verbatim>\<open>remainder = !padding || !all_padded<L_Expr, R_Expr>\<close>\<close>

definition remainder_needed :: "config \<Rightarrow> bool \<Rightarrow> bool" where
  "remainder_needed cfg all_padded = (\<not> padding cfg \<or> \<not> all_padded)"

text \<open>The body shared by \<^verbatim>\<open>VectorizedAssignAdd\<close>, \<^verbatim>\<open>VectorizedAssignSub\<close>,
  \<^verbatim>\<open>VectorizedAssignMul\<close> and \<^verbatim>\<open>VectorizedAssignDiv\<close>.\<close>

definition vectorized_functor ::
  "config \<Rightarrow> bool \<Rightarrow> nat \<Rightarrow> nat \<Rightarrow> ('a \<Rightarrow> 'a \<Rightarrow> 'a) \<Rightarrow> 'a reader \<Rightarrow> nat \<Rightarrow> nat \<Rightarrow> 'a mem \<Rightarrow> 'a mem" where
  "vectorized_functor cfg all_padded D W upd rhs first lasti lhs =
     (let sz = lasti - first;
          remainder = remainder_needed cfg all_padded;
          lastp = (if remainder then lasti else first + alloc_size cfg D sz);
          (i1, lhs1) = compound_loop4 (vec_op_at upd W rhs) W lastp first lhs;
          (i2, lhs2) = compound_loop1 (vec_op_at upd W rhs) W lastp i1 lhs1
      in tail_loop remainder upd rhs lastp i2 lhs2)"

definition VectorizedAssignAdd ::
  "config \<Rightarrow> bool \<Rightarrow> nat \<Rightarrow> nat \<Rightarrow> ('a::plus) reader \<Rightarrow> nat \<Rightarrow> nat \<Rightarrow> 'a mem \<Rightarrow> 'a mem" where
  "VectorizedAssignAdd cfg all_padded D W rhs first lasti lhs =
     vectorized_functor cfg all_padded D W (+) rhs first lasti lhs"

definition VectorizedAssignSub ::
  "config \<Rightarrow> bool \<Rightarrow> nat \<Rightarrow> nat \<Rightarrow> ('a::minus) reader \<Rightarrow> nat \<Rightarrow> nat \<Rightarrow> 'a mem \<Rightarrow> 'a mem" where
  "VectorizedAssignSub cfg all_padded D W rhs first lasti lhs =
     vectorized_functor cfg all_padded D W (-) rhs first lasti lhs"

definition VectorizedAssignMul ::
  "config \<Rightarrow> bool \<Rightarrow> nat \<Rightarrow> nat \<Rightarrow> ('a::times) reader \<Rightarrow> nat \<Rightarrow> nat \<Rightarrow> 'a mem \<Rightarrow> 'a mem" where
  "VectorizedAssignMul cfg all_padded D W rhs first lasti lhs =
     vectorized_functor cfg all_padded D W (*) rhs first lasti lhs"

definition VectorizedAssignDiv ::
  "config \<Rightarrow> bool \<Rightarrow> nat \<Rightarrow> nat \<Rightarrow> ('a::divide) reader \<Rightarrow> nat \<Rightarrow> nat \<Rightarrow> 'a mem \<Rightarrow> 'a mem" where
  "VectorizedAssignDiv cfg all_padded D W rhs first lasti lhs =
     vectorized_functor cfg all_padded D W divide rhs first lasti lhs"

section \<open>Vectorized plain assignment\<close>

text \<open>Which store instruction \<^verbatim>\<open>VectorizedAssign\<close> used.\<close>

datatype store_path = Streaming_path | Cached_path

text \<open>\<^verbatim>\<open>for (; i < last; i += IT::size) { one vector statement }\<close>\<close>

function assign_loop1 ::
  "(nat \<Rightarrow> 'a mem \<Rightarrow> 'a mem) \<Rightarrow> nat \<Rightarrow> nat \<Rightarrow> nat \<Rightarrow> 'a mem \<Rightarrow> nat \<times> 'a mem" where
  "assign_loop1 stmt W lasti i lhs =
     (if 0 < W \<and> i < lasti
      then assign_loop1 stmt W lasti (i + W) (stmt i lhs)
      else (i, lhs))"
  by pat_completeness auto
termination
  by (relation "measure (\<lambda>(stmt, W, lasti, i, lhs). lasti - i)") auto

declare assign_loop1.simps [simp del]

text \<open>\<^verbatim>\<open>for (; i + (IT::size * 3) < last; i += 4 * IT::size) { four vector statements }\<close>\<close>

function assign_loop4 ::
  "(nat \<Rightarrow> 'a mem \<Rightarrow> 'a mem) \<Rightarrow> nat \<Rightarrow> nat \<Rightarrow> nat \<Rightarrow> 'a mem \<Rightarrow> nat \<times> 'a mem" where
  "assign_loop4 stmt W lasti i lhs =
     (if 0 < W \<and> i + W * 3 < lasti
      then assign_loop4 stmt W lasti (i + 4 * W)
             (stmt (i + 3 * W) (stmt (i + 2 * W) (stmt (i + 1 * W) (stmt (i + 0 * W) lhs))))
      else (i, lhs))"
  by pat_completeness auto
termination
  by (relation "measure (\<lambda>(stmt, W, lasti, i, lhs). lasti - i)") auto

declare assign_loop4.simps [simp del]

text \<open>The test in front of the streaming branch:
  \<^verbatim>\<open>streaming && _size > cache_size / (sizeof(lhs_value_type) * 3) && !rhs.alias(lhs)\<close>.
  \<open>elem_size\<close> is \<^verbatim>\<open>sizeof(lhs_value_type)\<close> and \<open>alias\<close> is what
  \<^verbatim>\<open>rhs.alias(lhs)\<close> returns.\<close>

definition use_streaming :: "config \<Rightarrow> nat \<Rightarrow> nat \<Rightarrow> bool \<Rightarrow> bool" where
  "use_streaming cfg elem_size sz alias =
     (streaming cfg \<and> sz > cache_size cfg div (elem_size * 3) \<and> \<not> alias)"

text \<open>The two branches of \<^verbatim>\<open>VectorizedAssign::operator()\<close>. The vector loops stop at
  \<open>lastp\<close>, the scalar tail at \<open>lasti\<close>.\<close>

definition streaming_stores ::
  "bool \<Rightarrow> nat \<Rightarrow> 'a reader \<Rightarrow> nat \<Rightarrow> nat \<Rightarrow> nat \<Rightarrow> 'a mem \<Rightarrow> 'a mem" where
  "streaming_stores remainder W rhs first lastp lasti lhs =
     (let (i1, lhs1) = assign_loop1 (vec_stream_at W rhs) W lastp first lhs
      in tail_loop remainder (\<lambda>old v. v) rhs lasti i1 lhs1)"

definition cached_stores ::
  "bool \<Rightarrow> nat \<Rightarrow> 'a reader \<Rightarrow> nat \<Rightarrow> nat \<Rightarrow> nat \<Rightarrow> 'a mem \<Rightarrow> 'a mem" where
  "cached_stores remainder W rhs first lastp lasti lhs =
     (let (i1, lhs1) = assign_loop4 (vec_store_at W rhs) W lastp first lhs;
          (i2, lhs2) = assign_loop1 (vec_store_at W rhs) W lastp i1 lhs1
      in tail_loop remainder (\<lambda>old v. v) rhs lasti i2 lhs2)"

text \<open>\<^verbatim>\<open>last = remainder ? _first + (_size & size_t(-IT::size)) : _last\<close>; the lane
  count is a power of two, so the mask rounds the size down to a multiple of it.\<close>

definition vector_last :: "bool \<Rightarrow> nat \<Rightarrow> nat \<Rightarrow> nat \<Rightarrow> nat" where
  "vector_last remainder W first lasti =
     (if remainder then first + round_down W (lasti - first) else lasti)"

definition VectorizedAssign ::
  "config \<Rightarrow> bool \<Rightarrow> nat \<Rightarrow> nat \<Rightarrow> bool \<Rightarrow> 'a reader \<Rightarrow> nat \<Rightarrow> nat \<Rightarrow> 'a mem
     \<Rightarrow> store_path \<times> 'a mem" where
  "VectorizedAssign cfg all_padded elem_size W alias rhs first lasti lhs =
     (let sz = lasti - first;
          remainder = remainder_needed cfg all_padded;
          lastp = vector_last remainder W first lasti
      in if use_streaming cfg elem_size sz alias
         then (Streaming_path, streaming_stores remainder W rhs first lastp lasti lhs)
         else (Cached_path, cached_stores remainder W rhs first lastp lasti lhs))"

section \<open>Capability traits\<close>

text \<open>The selectors of \<^verbatim>\<open>eval_selectors.hpp\<close> are compile-time constants computed from
  the traits of the expression type \<open>E\<close> and of the result type \<open>R\<close>. A type is
  represented by the values of its traits (\<^verbatim>\<open>decay_traits<T>\<close>,
  \<^verbatim>\<open>has_direct_access<T>\<close>, \<^verbatim>\<open>value_t<T>\<close>).\<close>

datatype vector_mode_t = NONE | SSE3 | AVX | AVX512

datatype order = RowMajor | ColumnMajor

datatype value_type = T_int | T_float | T_double | T_complex_float | T_complex_double

record traits =
  has_direct_access :: bool
  gpu_computable :: bool
  vectorizable :: "vector_mode_t \<Rightarrow> bool"
  storage_order :: order
  value_t :: value_type
  is_generator :: bool
  dimensions :: nat

text \<open>The build: the switches \<^verbatim>\<open>vectorize_expr\<close>, \<^verbatim>\<open>avx512_enabled\<close>,
  \<^verbatim>\<open>avx_enabled\<close>, \<^verbatim>\<open>sse3_enabled\<close>, and the table
  \<^verbatim>\<open>get_intrinsic_traits<V>::type<T>\<close> with its members \<^verbatim>\<open>vectorizable\<close> and
  \<^verbatim>\<open>intrinsic_type\<close> (a register type, named by a string). The table is declared
  outside the sources at hand and is a parameter.\<close>

record build =
  vectorize_expr :: bool
  avx512_enabled :: bool
  avx_enabled :: bool
  sse3_enabled :: bool
  intrinsic_vectorizable :: "vector_mode_t \<Rightarrow> value_type \<Rightarrow> bool"
  intrinsic_type :: "vector_mode_t \<Rightarrow> value_type \<Rightarrow> string"

text \<open>Modelled from the spec: \<^verbatim>\<open>all_dma<E, R>\<close> and \<^verbatim>\<open>all_gpu_computable<E, R>\<close> are
  declared outside the sources at hand; fast copy applies when source and destination are
  both direct-access, the accelerator when both operands are accelerator-computable.\<close>

definition all_dma :: "traits \<Rightarrow> traits \<Rightarrow> bool" where
  "all_dma E R = (has_direct_access E \<and> has_direct_access R)"

definition all_gpu_computable :: "traits \<Rightarrow> traits \<Rightarrow> bool" where
  "all_gpu_computable E R = (gpu_computable E \<and> gpu_computable R)"

text \<open>Modelled from the spec: \<^verbatim>\<open>is_floating_t\<close> and \<^verbatim>\<open>is_complex_t\<close> are declared
  outside the sources at hand; they tell the floating-point and the complex element types
  from the others.\<close>

definition is_floating_t :: "value_type \<Rightarrow> bool" where
  "is_floating_t T = (T = T_float \<or> T = T_double)"

definition is_complex_t :: "value_type \<Rightarrow> bool" where
  "is_complex_t T = (T = T_complex_float \<or> T = T_complex_double)"

section \<open>Strategy selectors\<close>

definition are_vectorizable_select :: "build \<Rightarrow> vector_mode_t \<Rightarrow> traits \<Rightarrow> traits \<Rightarrow> bool" where
  "are_vectorizable_select b V E R =
     (vectorize_expr b
      \<and> vectorizable R V
      \<and> vectorizable E V
      \<and> storage_order E = storage_order R
      \<and> intrinsic_vectorizable b V (value_t R)
      \<and> intrinsic_vectorizable b V (value_t E)
      \<and> intrinsic_type b V (value_t R) = intrinsic_type b V (value_t E))"

definition are_vectorizable :: "build \<Rightarrow> traits \<Rightarrow> traits \<Rightarrow> bool" where
  "are_vectorizable b E R =
     ((avx512_enabled b \<and> are_vectorizable_select b AVX512 E R)
      \<or> (avx_enabled b \<and> are_vectorizable_select b AVX E R)
      \<or> (sse3_enabled b \<and> are_vectorizable_select b SSE3 E R))"

definition select_vector_mode :: "build \<Rightarrow> traits \<Rightarrow> traits \<Rightarrow> vector_mode_t" where
  "select_vector_mode b E R =
     (if avx512_enabled b \<and> are_vectorizable_select b AVX512 E R then AVX512
      else if avx_enabled b \<and> are_vectorizable_select b AVX E R then AVX
      else if sse3_enabled b \<and> are_vectorizable_select b SSE3 E R then SSE3
      else NONE)"

subsection \<open>Selectors for assign\<close>

definition fast_assign :: "traits \<Rightarrow> traits \<Rightarrow> bool" where
  "fast_assign E R = all_dma E R"

definition gpu_assign :: "traits \<Rightarrow> traits \<Rightarrow> bool" where
  "gpu_assign E R = (\<not> fast_assign E R \<and> all_gpu_computable E R)"

definition vectorized_assign :: "build \<Rightarrow> traits \<Rightarrow> traits \<Rightarrow> bool" where
  "vectorized_assign b E R = (\<not> gpu_assign E R \<and> are_vectorizable b E R)"

definition direct_assign :: "build \<Rightarrow> traits \<Rightarrow> traits \<Rightarrow> bool" where
  "direct_assign b E R =
     (\<not> gpu_assign E R \<and> \<not> are_vectorizable b E R \<and> \<not> has_direct_access E \<and> has_direct_access R)"

definition standard_assign :: "traits \<Rightarrow> traits \<Rightarrow> bool" where
  "standard_assign E R = (\<not> has_direct_access R)"

subsection \<open>Selectors for compound operations\<close>

definition vectorized_compound :: "build \<Rightarrow> traits \<Rightarrow> traits \<Rightarrow> bool" where
  "vectorized_compound b E R = are_vectorizable b E R"

definition direct_compound :: "build \<Rightarrow> traits \<Rightarrow> traits \<Rightarrow> bool" where
  "direct_compound b E R = (\<not> vectorized_compound b E R \<and> has_direct_access R)"

definition standard_compound :: "build \<Rightarrow> traits \<Rightarrow> traits \<Rightarrow> bool" where
  "standard_compound b E R = (\<not> vectorized_compound b E R \<and> \<not> direct_compound b E R)"

subsection \<open>Selectors for compound div operation\<close>

definition vectorized_compound_div :: "build \<Rightarrow> traits \<Rightarrow> traits \<Rightarrow> bool" where
  "vectorized_compound_div b E R =
     ((is_floating_t (value_t E) \<or> is_complex_t (value_t E)) \<and> are_vectorizable b E R)"

definition direct_compound_div :: "build \<Rightarrow> traits \<Rightarrow> traits \<Rightarrow> bool" where
  "direct_compound_div b E R = (\<not> vectorized_compound_div b E R \<and> has_direct_access R)"

definition standard_compound_div :: "build \<Rightarrow> traits \<Rightarrow> traits \<Rightarrow> bool" where
  "standard_compound_div b E R =
     (\<not> vectorized_compound_div b E R \<and> \<not> direct_compound_div b E R)"

section \<open>Overload selection\<close>

text \<open>The evaluator's entry points are overload sets: each overload is enabled by one
  selector (\<^verbatim>\<open>cpp_enable_iff\<close>). A call compiles when exactly one overload is enabled:
  none is a missing function, two or more are an ambiguous call. Assertions that fail and
  builds that do not compile are error values.\<close>

datatype error =
  Assertion_failed
  | Static_assert_failed
  | No_matching_function
  | Ambiguous_call
  | Unreachable

definition enabled :: "(bool \<times> 'a) list \<Rightarrow> 'a list" where
  "enabled overloads = map snd (filter fst overloads)"

fun resolve :: "'a list \<Rightarrow> error + 'a" where
  "resolve [] = Inl No_matching_function"
| "resolve [f] = Inr f"
| "resolve (f # g # fs) = Inl Ambiguous_call"

text \<open>The overloads of \<^verbatim>\<open>assign_evaluate_impl\<close>, in the order of the source.\<close>

datatype assign_strategy =
  Standard_assign
  | Fast_assign_full
  | Fast_assign
  | Gpu_assign
  | Direct_assign
  | Vectorized_assign

definition assign_evaluate_impl_overloads ::
  "build \<Rightarrow> traits \<Rightarrow> traits \<Rightarrow> (bool \<times> assign_strategy) list" where
  "assign_evaluate_impl_overloads b E R =
     [(standard_assign E R, Standard_assign),
      (value_t E = value_t R \<and> fast_assign E R, Fast_assign_full),
      (value_t E \<noteq> value_t R \<and> fast_assign E R, Fast_assign),
      (gpu_assign E R, Gpu_assign),
      (direct_assign b E R, Direct_assign),
      (vectorized_assign b E R, Vectorized_assign)]"

definition assign_evaluate_impl :: "build \<Rightarrow> traits \<Rightarrow> traits \<Rightarrow> error + assign_strategy" where
  "assign_evaluate_impl b E R = resolve (enabled (assign_evaluate_impl_overloads b E R))"

text \<open>The five plain-assign selectors, in the precedence of the strategies they stand for:
  fast copy, accelerator, vectorized, direct, standard.\<close>

definition assign_selectors :: "build \<Rightarrow> traits \<Rightarrow> traits \<Rightarrow> bool list" where
  "assign_selectors b E R =
     [fast_assign E R, gpu_assign E R, vectorized_assign b E R, direct_assign b E R,
      standard_assign E R]"

text \<open>The overloads of \<^verbatim>\<open>div_evaluate\<close> in a build without \<^verbatim>\<open>ETL_EGBLAS_MODE\<close> and
  \<^verbatim>\<open>ETL_CUBLAS_MODE\<close> (the accelerator overloads are compiled only under these macros,
  and their selector \<^verbatim>\<open>gpu_compound_div\<close> is not declared in the sources at hand).\<close>

datatype compound_strategy = Standard_compound | Direct_compound | Vectorized_compound

definition div_evaluate_overloads ::
  "build \<Rightarrow> traits \<Rightarrow> traits \<Rightarrow> (bool \<times> compound_strategy) list" where
  "div_evaluate_overloads b E R =
     [(standard_compound_div b E R, Standard_compound),
      (direct_compound_div b E R, Direct_compound),
      (vectorized_compound_div b E R, Vectorized_compound)]"

definition div_evaluate :: "build \<Rightarrow> traits \<Rightarrow> traits \<Rightarrow> error + compound_strategy" where
  "div_evaluate b E R = resolve (enabled (div_evaluate_overloads b E R))"

section \<open>Selection of the matrix-multiply backend\<close>

type_synonym size_t = "64 word"




subsection \<open>\<^verbatim>\<open>impl/mmul.hpp\<close>\<close>





subsection \<open>\<^verbatim>\<open>expr/gemm_expr.hpp\<close>\<close>




section \<open>The scalar expression\<close>

text \<open>\<^verbatim>\<open>etl::scalar<T>\<close> holds one value (\<^verbatim>\<open>const T value\<close>).\<close>

record 'a scalar =
  scalar_value :: 'a

text \<open>\<^verbatim>\<open>operator[](d)\<close>, \<^verbatim>\<open>read_flat(d)\<close>, \<^verbatim>\<open>load(d)\<close> (\<^verbatim>\<open>V::set(value)\<close>: every
  lane holds the value), \<^verbatim>\<open>operator()(args...)\<close> and \<^verbatim>\<open>alias(rhs)\<close>.\<close>

definition scalar_subscript :: "'a scalar \<Rightarrow> nat \<Rightarrow> 'a" where
  "scalar_subscript s d = scalar_value s"

definition scalar_read_flat :: "'a scalar \<Rightarrow> nat \<Rightarrow> 'a" where
  "scalar_read_flat s d = scalar_value s"

definition scalar_load :: "nat \<Rightarrow> 'a scalar \<Rightarrow> nat \<Rightarrow> 'a list" where
  "scalar_load W s d = replicate W (scalar_value s)"

definition scalar_call :: "'a scalar \<Rightarrow> nat list \<Rightarrow> 'a" where
  "scalar_call s args = scalar_value s"

definition scalar_alias :: "'a scalar \<Rightarrow> 'e \<Rightarrow> bool" where
  "scalar_alias s e = False"

text \<open>A scalar as the source of a functor.\<close>

definition scalar_reader :: "'a scalar \<Rightarrow> 'a reader" where
  "scalar_reader s = (\<lambda>lhs d. scalar_subscript s d)"

section \<open>The view of a 2D sub matrix\<close>

text \<open>\<^verbatim>\<open>etl::sub_matrix_2d\<close>: the sub expression (its \<^verbatim>\<open>operator[]\<close> on flat indices
  and its storage order), the first indices \<^verbatim>\<open>base_i\<close> and \<^verbatim>\<open>base_j\<close>, the dimensions
  \<^verbatim>\<open>m\<close> and \<^verbatim>\<open>n\<close> of the view (\<open>dim_m\<close>, \<open>dim_n\<close>) and the dimensions
  \<^verbatim>\<open>base_m\<close> and \<^verbatim>\<open>base_n\<close> of the sub expression. All indices are
  \<^verbatim>\<open>size_t\<close>.\<close>

record 'a sub_matrix_2d =
  sub_expr :: "size_t \<Rightarrow> 'a"
  sub_storage_order :: order
  base_i :: size_t
  base_j :: size_t
  dim_m :: size_t
  dim_n :: size_t
  base_m :: size_t
  base_n :: size_t

text \<open>The flat index of the sub expression that \<^verbatim>\<open>operator[](j)\<close> reads.\<close>

definition sub_matrix_2d_index :: "'a sub_matrix_2d \<Rightarrow> size_t \<Rightarrow> size_t" where
  "sub_matrix_2d_index v j =
     (if sub_storage_order v = RowMajor
      then (let ii = base_i v + j div dim_n v;
                jj = base_j v + j mod dim_n v
            in ii * base_n v + jj)
      else (let ii = base_i v + j mod dim_m v;
                jj = base_j v + j div dim_m v
            in ii + jj * base_m v))"

text \<open>\<^verbatim>\<open>operator[](j)\<close>, with its \<^verbatim>\<open>cpp_assert(j < m * n, ...)\<close>.\<close>

definition sub_matrix_2d_subscript :: "'a sub_matrix_2d \<Rightarrow> size_t \<Rightarrow> error + 'a" where
  "sub_matrix_2d_subscript v j =
     (if \<not> j < dim_m v * dim_n v then Inl Assertion_failed
      else Inr (sub_expr v (sub_matrix_2d_index v j)))"

section \<open>Containers with host and device memory\<close>

text \<open>Modelled from the spec: the container classes and their coherency protocol are
  declared outside the sources at hand. A destination has a host memory, a device memory
  and two flags, host-memory valid and device-memory valid; \<^verbatim>\<open>validate_cpu\<close>,
  \<^verbatim>\<open>invalidate_cpu\<close>, \<^verbatim>\<open>validate_gpu\<close> and \<^verbatim>\<open>invalidate_gpu\<close> set one flag;
  \<^verbatim>\<open>ensure_cpu_up_to_date\<close> and \<^verbatim>\<open>ensure_gpu_up_to_date\<close> copy in from the other
  side when the side asked for is stale; \<^verbatim>\<open>gpu_copy_from\<close> fills the device memory,
  which makes the device side valid and the host side stale (the evaluator's comment:
  ``gpu_copy_from will erase'' the CPU status).\<close>

record 'a container =
  csize :: nat
  cpu_mem :: "'a mem"
  gpu_mem :: "'a mem"
  cpu_up_to_date :: bool
  gpu_up_to_date :: bool

definition validate_cpu :: "'a container \<Rightarrow> 'a container" where
  "validate_cpu c = c\<lparr>cpu_up_to_date := True\<rparr>"

definition invalidate_cpu :: "'a container \<Rightarrow> 'a container" where
  "invalidate_cpu c = c\<lparr>cpu_up_to_date := False\<rparr>"

definition validate_gpu :: "'a container \<Rightarrow> 'a container" where
  "validate_gpu c = c\<lparr>gpu_up_to_date := True\<rparr>"

definition invalidate_gpu :: "'a container \<Rightarrow> 'a container" where
  "invalidate_gpu c = c\<lparr>gpu_up_to_date := False\<rparr>"

definition ensure_gpu_allocated :: "'a container \<Rightarrow> 'a container" where
  "ensure_gpu_allocated c = c"

definition gpu_copy_from :: "'a container \<Rightarrow> 'a mem \<Rightarrow> 'a container" where
  "gpu_copy_from c g = c\<lparr>gpu_mem := g, cpu_up_to_date := False, gpu_up_to_date := True\<rparr>"

definition ensure_cpu_up_to_date :: "'a container \<Rightarrow> 'a container" where
  "ensure_cpu_up_to_date c =
     (if cpu_up_to_date c then c else c\<lparr>cpu_mem := gpu_mem c, cpu_up_to_date := True\<rparr>)"

definition ensure_gpu_up_to_date :: "'a container \<Rightarrow> 'a container" where
  "ensure_gpu_up_to_date c =
     (if gpu_up_to_date c then c else c\<lparr>gpu_mem := cpu_mem c, gpu_up_to_date := True\<rparr>)"

definition safe_ensure_cpu_up_to_date :: "'a container \<Rightarrow> 'a container" where
  "safe_ensure_cpu_up_to_date c = ensure_cpu_up_to_date c"

text \<open>Modelled from the spec: \<^verbatim>\<open>direct_copy(first, last, target)\<close> is declared outside
  the sources at hand; fast copy is a raw memory copy of the source's elements, and a
  converting copy (\<open>conv\<close>) when the element types differ.\<close>

definition direct_copy :: "('b \<Rightarrow> 'a) \<Rightarrow> 'b mem \<Rightarrow> nat \<Rightarrow> 'a mem \<Rightarrow> 'a mem" where
  "direct_copy conv src n target = (\<lambda>j. if j < n then conv (src j) else target j)"

text \<open>Modelled from the spec: the accelerator primitives (\<^verbatim>\<open>cublas_axpy\<close>,
  \<^verbatim>\<open>cublas_scal\<close>, \<^verbatim>\<open>egblas::scalar_add\<close>, \<^verbatim>\<open>egblas::axmy\<close>,
  \<^verbatim>\<open>egblas::axdy\<close>) are external libraries; each combines the first \<open>n\<close> cells of the
  device memory \<open>y\<close> with those of \<open>x\<close>, cell by cell.\<close>

definition gpu_kernel :: "('a \<Rightarrow> 'a \<Rightarrow> 'a) \<Rightarrow> nat \<Rightarrow> 'a mem \<Rightarrow> 'a mem \<Rightarrow> 'a mem" where
  "gpu_kernel upd n x y = (\<lambda>j. if j < n then upd (y j) (x j) else y j)"

section \<open>The evaluator\<close>

text \<open>The implementations of \<^verbatim>\<open>evaluator.hpp\<close>, in a build without
  \<^verbatim>\<open>ETL_PARALLEL_SUPPORT\<close>, where \<^verbatim>\<open>par_exec<Fun>\<close> is \<^verbatim>\<open>Fun::apply\<close> and both
  branches of the test on \<^verbatim>\<open>select_parallel\<close> run the functor once over the whole
  range. The source expression is given by what the implementation uses of it: its reader
  for the host loops (the values it yields once \<^verbatim>\<open>safe_ensure_cpu_up_to_date(expr)\<close> has
  run), its container for the fast copy, the device memory of \<^verbatim>\<open>expr.gpu_compute()\<close>
  for the accelerator. \<^verbatim>\<open>pre_assign_rhs\<close> evaluates the temporaries inside the
  expression and does not touch the destination.\<close>

text \<open>\<^verbatim>\<open>for (size_t i = 0; i < etl::size(result); ++i) result[i] op= expr[i];\<close>\<close>

definition index_loop :: "('a \<Rightarrow> 'a \<Rightarrow> 'a) \<Rightarrow> 'a reader \<Rightarrow> 'a container \<Rightarrow> 'a container" where
  "index_loop upd expr result =
     result\<lparr>cpu_mem := remainder_loop upd expr (csize result) 0 (cpu_mem result)\<rparr>"

subsection \<open>Assign\<close>

definition standard_assign_impl :: "'a reader \<Rightarrow> 'a container \<Rightarrow> 'a container" where
  "standard_assign_impl expr result = index_loop (\<lambda>old v. v) expr result"

text \<open>\<open>cuda\<close> is the macro \<^verbatim>\<open>ETL_CUDA\<close>.\<close>

definition fast_assign_impl_full :: "bool \<Rightarrow> 'a container \<Rightarrow> 'a container \<Rightarrow> error + 'a container" where
  "fast_assign_impl_full cuda expr result =
     (if cuda
      then (if \<not> (cpu_up_to_date expr \<or> gpu_up_to_date expr) then Inl Assertion_failed
            else
              (let r1 = (if cpu_up_to_date expr
                         then validate_cpu
                                (result\<lparr>cpu_mem := direct_copy (\<lambda>x. x) (cpu_mem expr) (csize expr) (cpu_mem result)\<rparr>)
                         else result);
                   r2 = (if gpu_up_to_date expr
                         then (let cpu_status = cpu_up_to_date expr;
                                   r = gpu_copy_from (ensure_gpu_allocated r1) (gpu_mem expr)
                               in if cpu_status then validate_cpu r else r)
                         else r1);
                   r3 = (if \<not> cpu_up_to_date expr then invalidate_cpu r2 else r2);
                   r4 = (if \<not> gpu_up_to_date expr then invalidate_gpu r3 else r3)
               in if cpu_up_to_date expr \<noteq> cpu_up_to_date r4 then Inl Assertion_failed
                  else if gpu_up_to_date expr \<noteq> gpu_up_to_date r4 then Inl Assertion_failed
                  else Inr r4))
      else Inr (result\<lparr>cpu_mem := direct_copy (\<lambda>x. x) (cpu_mem expr) (csize expr) (cpu_mem result)\<rparr>))"

definition fast_assign_impl :: "('b \<Rightarrow> 'a) \<Rightarrow> 'b container \<Rightarrow> 'a container \<Rightarrow> 'a container" where
  "fast_assign_impl conv expr result =
     (let e = ensure_cpu_up_to_date expr;
          r = result\<lparr>cpu_mem := direct_copy conv (cpu_mem e) (csize e) (cpu_mem result)\<rparr>
      in invalidate_gpu (validate_cpu r))"

text \<open>\<open>t1\<close> is the device memory of \<^verbatim>\<open>expr.gpu_compute()\<close>.\<close>

definition gpu_assign_impl :: "'a mem \<Rightarrow> 'a container \<Rightarrow> 'a container" where
  "gpu_assign_impl t1 result =
     invalidate_cpu (validate_gpu (gpu_copy_from (ensure_gpu_allocated result) t1))"

definition direct_assign_impl :: "config \<Rightarrow> 'a reader \<Rightarrow> 'a container \<Rightarrow> 'a container" where
  "direct_assign_impl cfg expr result =
     (let r = safe_ensure_cpu_up_to_date result;
          r' = r\<lparr>cpu_mem := Assign cfg expr (csize r) (cpu_mem r)\<rparr>
      in invalidate_gpu (validate_cpu r'))"

text \<open>The parameters of the functor that the types fix: whether both operands are padded,
  \<^verbatim>\<open>sizeof\<close> of the element type, the lane count of the padding and of the selected
  vector mode, and what \<^verbatim>\<open>rhs.alias(lhs)\<close> returns.\<close>

record kernel =
  k_all_padded :: bool
  k_elem_size :: nat
  k_pad_lanes :: nat
  k_lanes :: nat
  k_alias :: bool

definition vectorized_assign_impl ::
  "config \<Rightarrow> kernel \<Rightarrow> 'a reader \<Rightarrow> 'a container \<Rightarrow> 'a container" where
  "vectorized_assign_impl cfg k expr result =
     (let r = safe_ensure_cpu_up_to_date result;
          r' = r\<lparr>cpu_mem := snd (VectorizedAssign cfg (k_all_padded k) (k_elem_size k) (k_lanes k) (k_alias k)
                                   expr 0 (csize r) (cpu_mem r))\<rparr>
      in invalidate_gpu (validate_cpu r'))"

subsection \<open>Compound assignment\<close>

text \<open>The implementations for \<^verbatim>\<open>+=\<close>, \<^verbatim>\<open>-=\<close>, \<^verbatim>\<open>*=\<close> and \<^verbatim>\<open>/=\<close> differ in the
  operator, and \<^verbatim>\<open>standard_compound_add_impl\<close> is the one that does not bring the host
  side up to date first (\<open>sync\<close>).\<close>

definition standard_compound_impl ::
  "bool \<Rightarrow> ('a \<Rightarrow> 'a \<Rightarrow> 'a) \<Rightarrow> 'a reader \<Rightarrow> 'a container \<Rightarrow> 'a container" where
  "standard_compound_impl sync upd expr result =
     (let r = (if sync then safe_ensure_cpu_up_to_date result else result)
      in invalidate_gpu (validate_cpu (index_loop upd expr r)))"

definition direct_compound_impl ::
  "config \<Rightarrow> ('a \<Rightarrow> 'a \<Rightarrow> 'a) \<Rightarrow> 'a reader \<Rightarrow> 'a container \<Rightarrow> 'a container" where
  "direct_compound_impl cfg upd expr result =
     (let r = safe_ensure_cpu_up_to_date result;
          r' = r\<lparr>cpu_mem := scalar_functor cfg upd expr 0 (csize r) (cpu_mem r)\<rparr>
      in invalidate_gpu (validate_cpu r'))"

definition vectorized_compound_impl ::
  "config \<Rightarrow> kernel \<Rightarrow> ('a \<Rightarrow> 'a \<Rightarrow> 'a) \<Rightarrow> 'a reader \<Rightarrow> 'a container \<Rightarrow> 'a container" where
  "vectorized_compound_impl cfg k upd expr result =
     (let r = safe_ensure_cpu_up_to_date result;
          r' = r\<lparr>cpu_mem := vectorized_functor cfg (k_all_padded k) (k_pad_lanes k) (k_lanes k) upd
                              expr 0 (csize r) (cpu_mem r)\<rparr>
      in invalidate_gpu (validate_cpu r'))"

text \<open>The accelerator implementations: \<open>x\<close> is the device memory of
  \<^verbatim>\<open>expr.gpu_compute()\<close>, or the scalar's value in every cell.\<close>

definition gpu_compound_impl ::
  "('a \<Rightarrow> 'a \<Rightarrow> 'a) \<Rightarrow> 'a mem \<Rightarrow> 'a container \<Rightarrow> 'a container" where
  "gpu_compound_impl upd x result =
     (let r = ensure_gpu_up_to_date result;
          r' = r\<lparr>gpu_mem := gpu_kernel upd (csize r) x (gpu_mem r)\<rparr>
      in invalidate_cpu (validate_gpu r'))"

definition standard_compound_add_impl :: "('a::plus) reader \<Rightarrow> 'a container \<Rightarrow> 'a container" where
  "standard_compound_add_impl expr result = standard_compound_impl False (+) expr result"

definition direct_compound_add_impl :: "config \<Rightarrow> ('a::plus) reader \<Rightarrow> 'a container \<Rightarrow> 'a container" where
  "direct_compound_add_impl cfg expr result = direct_compound_impl cfg (+) expr result"

definition vectorized_compound_add_impl ::
  "config \<Rightarrow> kernel \<Rightarrow> ('a::plus) reader \<Rightarrow> 'a container \<Rightarrow> 'a container" where
  "vectorized_compound_add_impl cfg k expr result = vectorized_compound_impl cfg k (+) expr result"

definition gpu_assign_add_impl :: "('a::plus) mem \<Rightarrow> 'a container \<Rightarrow> 'a container" where
  "gpu_assign_add_impl t1 result = gpu_compound_impl (+) t1 result"

definition gpu_assign_add_scalar_impl :: "('a::plus) scalar \<Rightarrow> 'a container \<Rightarrow> 'a container" where
  "gpu_assign_add_scalar_impl expr result = gpu_compound_impl (+) (\<lambda>j. scalar_value expr) result"

definition standard_compound_sub_impl :: "('a::minus) reader \<Rightarrow> 'a container \<Rightarrow> 'a container" where
  "standard_compound_sub_impl expr result = standard_compound_impl True (-) expr result"

definition direct_compound_sub_impl :: "config \<Rightarrow> ('a::minus) reader \<Rightarrow> 'a container \<Rightarrow> 'a container" where
  "direct_compound_sub_impl cfg expr result = direct_compound_impl cfg (-) expr result"

definition vectorized_compound_sub_impl ::
  "config \<Rightarrow> kernel \<Rightarrow> ('a::minus) reader \<Rightarrow> 'a container \<Rightarrow> 'a container" where
  "vectorized_compound_sub_impl cfg k expr result = vectorized_compound_impl cfg k (-) expr result"

definition gpu_compound_sub_impl :: "('a::minus) mem \<Rightarrow> 'a container \<Rightarrow> 'a container" where
  "gpu_compound_sub_impl t1 result = gpu_compound_impl (-) t1 result"

definition gpu_compound_sub_scalar_impl ::
  "('a::{plus,uminus}) scalar \<Rightarrow> 'a container \<Rightarrow> 'a container" where
  "gpu_compound_sub_scalar_impl expr result =
     gpu_compound_impl (+) (\<lambda>j. - scalar_value expr) result"

definition standard_compound_mul_impl :: "('a::times) reader \<Rightarrow> 'a container \<Rightarrow> 'a container" where
  "standard_compound_mul_impl expr result = standard_compound_impl True (*) expr result"

definition direct_compound_mul_impl :: "config \<Rightarrow> ('a::times) reader \<Rightarrow> 'a container \<Rightarrow> 'a container" where
  "direct_compound_mul_impl cfg expr result = direct_compound_impl cfg (*) expr result"

definition vectorized_compound_mul_impl ::
  "config \<Rightarrow> kernel \<Rightarrow> ('a::times) reader \<Rightarrow> 'a container \<Rightarrow> 'a container" where
  "vectorized_compound_mul_impl cfg k expr result = vectorized_compound_impl cfg k (*) expr result"

definition gpu_compound_mul_impl :: "('a::times) mem \<Rightarrow> 'a container \<Rightarrow> 'a container" where
  "gpu_compound_mul_impl t1 result = gpu_compound_impl (*) t1 result"

definition gpu_compound_mul_scalar_impl :: "('a::times) scalar \<Rightarrow> 'a container \<Rightarrow> 'a container" where
  "gpu_compound_mul_scalar_impl expr result =
     gpu_compound_impl (\<lambda>y v. v * y) (\<lambda>j. scalar_value expr) result"

definition standard_compound_div_impl :: "('a::divide) reader \<Rightarrow> 'a container \<Rightarrow> 'a container" where
  "standard_compound_div_impl expr result = standard_compound_impl True divide expr result"

definition direct_compound_div_impl :: "config \<Rightarrow> ('a::divide) reader \<Rightarrow> 'a container \<Rightarrow> 'a container" where
  "direct_compound_div_impl cfg expr result = direct_compound_impl cfg divide expr result"

definition vectorized_compound_div_impl ::
  "config \<Rightarrow> kernel \<Rightarrow> ('a::divide) reader \<Rightarrow> 'a container \<Rightarrow> 'a container" where
  "vectorized_compound_div_impl cfg k expr result = vectorized_compound_impl cfg k divide expr result"

definition gpu_compound_div_impl :: "('a::divide) mem \<Rightarrow> 'a container \<Rightarrow> 'a container" where
  "gpu_compound_div_impl t1 result = gpu_compound_impl divide t1 result"

definition gpu_compound_div_scalar_impl ::
  "('a::{one,times,divide}) scalar \<Rightarrow> 'a container \<Rightarrow> 'a container" where
  "gpu_compound_div_scalar_impl expr result =
     gpu_compound_impl (\<lambda>y v. v * y) (\<lambda>j. divide 1 (scalar_value expr)) result"

text \<open>\<^verbatim>\<open>mod_evaluate\<close>: the one implementation of \<^verbatim>\<open>%=\<close>.\<close>

definition mod_evaluate :: "('a::modulo) reader \<Rightarrow> 'a container \<Rightarrow> 'a container" where
  "mod_evaluate expr result = standard_compound_impl True (mod) expr result"

text \<open>What the coherency claim says of a destination.\<close>

definition host_valid_only :: "'a container \<Rightarrow> bool" where
  "host_valid_only c = (cpu_up_to_date c \<and> \<not> gpu_up_to_date c)"

definition device_valid_only :: "'a container \<Rightarrow> bool" where
  "device_valid_only c = (gpu_up_to_date c \<and> \<not> cpu_up_to_date c)"

section \<open>Transposition on assignment\<close>

text \<open>Modelled from the spec: \<^verbatim>\<open>all_1d\<close> and \<^verbatim>\<open>all_2d\<close> are declared outside the
  sources at hand; they hold when both operands are 1-D vectors, respectively 2-D
  matrices.\<close>

definition all_1d :: "traits \<Rightarrow> traits \<Rightarrow> bool" where
  "all_1d E R = (dimensions E = 1 \<and> dimensions R = 1)"

definition all_2d :: "traits \<Rightarrow> traits \<Rightarrow> bool" where
  "all_2d E R = (dimensions E = 2 \<and> dimensions R = 2)"

definition direct_assign_compatible :: "traits \<Rightarrow> traits \<Rightarrow> bool" where
  "direct_assign_compatible E R =
     (is_generator E \<or> storage_order E = storage_order R \<or> all_1d E R)"

text \<open>The two overloads of \<^verbatim>\<open>std_assign_evaluate\<close>. \<^verbatim>\<open>standard_evaluator::assign_evaluate\<close>
  and \<^verbatim>\<open>transpose\<close> are the parameters \<open>assign_evaluate\<close> and \<open>transposed\<close>.\<close>

definition std_assign_evaluate ::
  "traits \<Rightarrow> traits \<Rightarrow> ('e \<Rightarrow> 'r \<Rightarrow> 'r) \<Rightarrow> ('e \<Rightarrow> 'e) \<Rightarrow> 'e \<Rightarrow> 'r \<Rightarrow> error + 'r" where
  "std_assign_evaluate E R assign_evaluate transposed expr result =
     (if direct_assign_compatible E R then Inr (assign_evaluate expr result)
      else if \<not> all_2d E R then Inl Static_assert_failed
      else Inr (assign_evaluate (transposed expr) result))"

text \<open>Modelled from the spec: the matrix containers and the transposed view are declared
  outside the sources at hand. A 2-D expression has its two dimensions, its storage order
  and its elements by row and column; its flat index runs along the rows when row-major
  and along the columns when column-major (as in \<^verbatim>\<open>sub_matrix_2d::operator[]\<close>). The
  transposed view swaps the dimensions and the two indices and keeps the storage order of
  the expression it views.\<close>

record 'a expr_2d =
  e_rows :: nat
  e_cols :: nat
  e_order :: order
  e_at :: "nat \<Rightarrow> nat \<Rightarrow> 'a"

definition read_flat_2d :: "'a expr_2d \<Rightarrow> nat \<Rightarrow> 'a" where
  "read_flat_2d e k =
     (if e_order e = RowMajor then e_at e (k div e_cols e) (k mod e_cols e)
      else e_at e (k mod e_rows e) (k div e_rows e))"

definition transpose_view :: "'a expr_2d \<Rightarrow> 'a expr_2d" where
  "transpose_view e = e\<lparr>e_rows := e_cols e, e_cols := e_rows e, e_at := (\<lambda>i j. e_at e j i)\<rparr>"

text \<open>The element at row \<open>i\<close> and column \<open>j\<close> of an \<open>m \<times> n\<close> destination.\<close>

definition result_at :: "order \<Rightarrow> nat \<Rightarrow> nat \<Rightarrow> 'a container \<Rightarrow> nat \<Rightarrow> nat \<Rightarrow> 'a" where
  "result_at ord m n result i j =
     (if ord = RowMajor then cpu_mem result (i * n + j) else cpu_mem result (i + j * m))"

text \<open>\<^verbatim>\<open>assign_evaluate\<close> of a 2-D expression through the standard implementation.\<close>

definition assign_evaluate_2d :: "'a expr_2d \<Rightarrow> 'a container \<Rightarrow> 'a container" where
  "assign_evaluate_2d expr result = standard_assign_impl (\<lambda>lhs. read_flat_2d expr) result"

section \<open>Notions used in the statements\<close>

text \<open>The effect of the statement \<^verbatim>\<open>lhs[j] op= rhs[j]\<close> on every cell of \<open>[a, b)\<close>, each
  computed from the memory before.\<close>

definition elementwise ::
  "('a \<Rightarrow> 'a \<Rightarrow> 'a) \<Rightarrow> 'a reader \<Rightarrow> nat \<Rightarrow> nat \<Rightarrow> 'a mem \<Rightarrow> 'a mem" where
  "elementwise upd rhs a b lhs =
     (\<lambda>j. if a \<le> j \<and> j < b then upd (lhs j) (rhs lhs j) else lhs j)"

text \<open>A source whose value at an index depends on the destination at most through the
  cell of that index: a source that does not refer to the destination at all, or one that
  reads the destination element-wise (\<^verbatim>\<open>a += a\<close>, \<^verbatim>\<open>a = a + b\<close>).\<close>

definition cell_local :: "'a reader \<Rightarrow> bool" where
  "cell_local rhs = (\<forall>m m' j. m j = m' j \<longrightarrow> rhs m j = rhs m' j)"







text \<open>The view lies inside the sub expression, whose elements are addressable.\<close>

definition window_inside :: "'a sub_matrix_2d \<Rightarrow> bool" where
  "window_inside v =
     (unat (base_i v) + unat (dim_m v) \<le> unat (base_m v)
      \<and> unat (base_j v) + unat (dim_n v) \<le> unat (base_n v)
      \<and> unat (base_m v) * unat (base_n v) < 2 ^ 64)"

subsection \<open>Concrete operands\<close>

text \<open>A dense matrix of \<^verbatim>\<open>float\<close> or of \<^verbatim>\<open>int\<close>: direct memory access, vectorizable
  in every mode, row-major, not computable on the accelerator.\<close>

definition dense :: "value_type \<Rightarrow> traits" where
  "dense T =
     \<lparr>has_direct_access = True, gpu_computable = False, vectorizable = (\<lambda>V. True),
      storage_order = RowMajor, value_t = T, is_generator = False, dimensions = 2\<rparr>"

text \<open>A build with SSE3 only, where the floating-point and complex types have vector
  registers and the integers have none.\<close>

definition sse3_build :: build where
  "sse3_build =
     \<lparr>vectorize_expr = True, avx512_enabled = False, avx_enabled = False, sse3_enabled = True,
      intrinsic_vectorizable = (\<lambda>V T. V \<noteq> NONE \<and> T \<noteq> T_int),
      intrinsic_type = (\<lambda>V T. if T = T_float \<or> T = T_complex_float then ''__m128'' else ''__m128d'')\<rparr>"

text \<open>A source container that is valid on both sides, and a destination.\<close>

definition both_valid :: "int container" where
  "both_valid =
     \<lparr>csize = 2, cpu_mem = (\<lambda>j. 7), gpu_mem = (\<lambda>j. 7), cpu_up_to_date = True, gpu_up_to_date = True\<rparr>"

definition fresh :: "int container" where
  "fresh =
     \<lparr>csize = 2, cpu_mem = (\<lambda>j. 0), gpu_mem = (\<lambda>j. 0), cpu_up_to_date = True, gpu_up_to_date = False\<rparr>"

text \<open>The switches used in the examples.\<close>

definition example_config :: config where
  "example_config = \<lparr>unroll_normal_loops = True, streaming = True, padding = False, cache_size = 1024\<rparr>"






section \<open>Properties of the functors\<close>

lemma and_minus_power_round_down:
  "unat ((w::64 word) AND (- (2 ^ k))) = round_down (2 ^ k) (unat w)"
proof -
  have e: "w AND (- (2 ^ k)) = push_bit k (drop_bit k w)"
    unfolding minus_exp_eq_not_mask
    by (rule bit_eqI) (auto simp: bit_simps)
  have lt: "unat w < 2 ^ 64" using unsigned_less [of w] by simp
  have le: "unat w div 2 ^ k * 2 ^ k \<le> unat w"
    by simp
  have "unat (push_bit k (drop_bit k w)) = take_bit 64 (push_bit k (drop_bit k (unat w)))"
    unfolding unsigned_push_bit_eq unat_drop_bit_eq by simp
  also have "\<dots> = (unat w div 2 ^ k * 2 ^ k) mod 2 ^ 64"
    by (simp add: take_bit_eq_mod push_bit_eq_mult drop_bit_eq_div)
  also have "\<dots> = unat w div 2 ^ k * 2 ^ k"
    using lt le by (intro mod_less) linarith
  finally show ?thesis
    unfolding e round_down_def by (simp add: minus_mod_eq_mult_div [symmetric] mult.commute)
qed

lemma and_minus_4_round_down: "unat ((w::64 word) AND (- 4)) = round_down 4 (unat w)"
  using and_minus_power_round_down [of w 2] by simp

lemma assign_at_elementwise: "assign_at upd rhs i lhs = elementwise upd rhs i (i + 1) lhs"
  by (auto simp: assign_at_def elementwise_def fun_eq_iff)


lemma elementwise_empty: "b \<le> a \<Longrightarrow> elementwise upd rhs a b lhs = lhs"
  by (auto simp: elementwise_def fun_eq_iff)

lemma elementwise_compose:
  assumes "cell_local rhs" "a \<le> b" "b \<le> c"
  shows "elementwise upd rhs b c (elementwise upd rhs a b lhs) = elementwise upd rhs a c lhs"
proof
  fix j
  have "rhs (elementwise upd rhs a b lhs) j = rhs lhs j" if "b \<le> j"
    using assms(1) that unfolding cell_local_def
    by (metis elementwise_def not_le)
  then show "elementwise upd rhs b c (elementwise upd rhs a b lhs) j = elementwise upd rhs a c lhs j"
    using assms(2,3) by (auto simp: elementwise_def)
qed

lemma remainder_loop_elementwise:
  "cell_local rhs \<Longrightarrow> remainder_loop upd rhs lasti i lhs = elementwise upd rhs i lasti lhs"
proof (induction upd rhs lasti i lhs rule: remainder_loop.induct)
  case (1 upd rhs lasti i lhs)
  note cl = \<open>cell_local rhs\<close>
  show ?case
  proof (cases "i < lasti")
    case True
    have "remainder_loop upd rhs lasti i lhs
        = elementwise upd rhs (i + 1) lasti (elementwise upd rhs i (i + 1) lhs)"
      using True 1 by (subst remainder_loop.simps) (simp add: assign_at_elementwise)
    also have "\<dots> = elementwise upd rhs i lasti lhs"
      using True by (intro elementwise_compose cl) auto
    finally show ?thesis .
  next
    case False
    then show ?thesis by (subst remainder_loop.simps) (simp add: elementwise_empty)
  qed
qed












lemma Assign_example:
  "map (Assign example_config (\<lambda>lhs j. [1, 2, 3, 4, 5, 6] ! j + [10, 20, 30, 40, 50, 60] ! j) 6 (\<lambda>j. 0)) [0..<6]
     = [11, 22, 33, 44, 55, 66 :: int]"
  by (simp add: Assign_def scalar_functor_def round_down_def example_config_def
      unrolled_loop.simps remainder_loop.simps assign_at_def upt_rec)

lemma VectorizedAssign_example:
  "map (snd (VectorizedAssign example_config False 4 4 False
          (\<lambda>lhs j. [1, 2, 3, 4, 5, 6] ! j + [10, 20, 30, 40, 50, 60] ! j) 0 6 (\<lambda>j. 0))) [0..<6]
     = [11, 22, 33, 44, 55, 66 :: int]"
  by (simp add: VectorizedAssign_def use_streaming_def remainder_needed_def vector_last_def
      round_down_def cached_stores_def example_config_def assign_loop4.simps assign_loop1.simps
      tail_loop_def remainder_loop.simps assign_at_def vec_store_at_def store_def load_def upt_rec)

lemma AssignAdd_example:
  "map (AssignAdd example_config (\<lambda>lhs j. lhs j) 1 7 (\<lambda>j. int j)) [0..<8]
     = [0, 2, 4, 6, 8, 10, 12, 7]"
  by (simp add: AssignAdd_def scalar_functor_def round_down_def example_config_def
      unrolled_loop.simps remainder_loop.simps assign_at_def upt_rec)

lemma VectorizedAssignAdd_example:
  "map (VectorizedAssignAdd example_config False 2 2 (\<lambda>lhs j. lhs j) 1 14 (\<lambda>j. int j)) [0..<16]
     = [0, 2, 4, 6, 8, 10, 12, 14, 16, 18, 20, 22, 24, 26, 14, 15]"
  by (simp add: VectorizedAssignAdd_def vectorized_functor_def remainder_needed_def
      example_config_def compound_loop4.simps compound_loop1.simps tail_loop_def
      remainder_loop.simps assign_at_def vec_op_at_def store_def load_def upt_rec)

lemma compound_loop4_stop: "lasti \<le> i \<Longrightarrow> compound_loop4 stmt W lasti i lhs = (i, lhs)"
  by (subst compound_loop4.simps) auto

lemma compound_loop1_stop: "lasti \<le> i \<Longrightarrow> compound_loop1 stmt W lasti i lhs = (i, lhs)"
  by (subst compound_loop1.simps) auto

lemma assign_loop4_stop: "lasti \<le> i \<Longrightarrow> assign_loop4 stmt W lasti i lhs = (i, lhs)"
  by (subst assign_loop4.simps) auto

lemma assign_loop1_stop: "lasti \<le> i \<Longrightarrow> assign_loop1 stmt W lasti i lhs = (i, lhs)"
  by (subst assign_loop1.simps) auto

lemma remainder_loop_stop: "lasti \<le> i \<Longrightarrow> remainder_loop upd rhs lasti i lhs = lhs"
  by (subst remainder_loop.simps) auto

lemma unrolled_loop_stop: "iend \<le> i \<Longrightarrow> unrolled_loop upd rhs iend i lhs = lhs"
  by (subst unrolled_loop.simps) auto

lemma scalar_functor_empty: "scalar_functor cfg upd rhs first first lhs = lhs"
  by (simp add: scalar_functor_def round_down_def unrolled_loop_stop remainder_loop_stop)

lemma alloc_size_0: "alloc_size cfg D 0 = 0"
  by (simp add: alloc_size_def)

lemma vectorized_functor_empty: "vectorized_functor cfg all_padded D W upd rhs first first lhs = lhs"
  by (simp add: vectorized_functor_def alloc_size_0 compound_loop4_stop compound_loop1_stop
      tail_loop_def remainder_loop_stop Let_def)

lemma VectorizedAssign_empty:
  "VectorizedAssign cfg all_padded elem_size W alias rhs first first lhs = (Cached_path, lhs)"
  by (simp add: VectorizedAssign_def use_streaming_def vector_last_def round_down_def
      cached_stores_def assign_loop4_stop assign_loop1_stop tail_loop_def remainder_loop_stop Let_def)

text \<open>Claim C8. Every execution functor (the scalar assign, the scalar compound add, sub,
  mul and div, the vectorized assign and the vectorized compound add, sub, mul and div)
  invoked on a range of length zero leaves the destination memory as it was, whatever the
  switches for unrolling, streaming and padding, the lane counts and the source: no loop
  body runs, and the vectorized assign takes the cached branch.\<close>
theorem zero_length_range_is_noop:
  fixes rhs :: "('a::{plus,minus,times,divide}) reader"
  shows "Assign cfg rhs 0 lhs = lhs
    \<and> AssignAdd cfg rhs first first lhs = lhs
    \<and> AssignSub cfg rhs first first lhs = lhs
    \<and> AssignMul cfg rhs first first lhs = lhs
    \<and> AssignDiv cfg rhs first first lhs = lhs
    \<and> VectorizedAssign cfg all_padded elem_size W alias rhs first first lhs = (Cached_path, lhs)
    \<and> VectorizedAssignAdd cfg all_padded D W rhs first first lhs = lhs
    \<and> VectorizedAssignSub cfg all_padded D W rhs first first lhs = lhs
    \<and> VectorizedAssignMul cfg all_padded D W rhs first first lhs = lhs
    \<and> VectorizedAssignDiv cfg all_padded D W rhs first first lhs = lhs"
  by (simp add: Assign_def AssignAdd_def AssignSub_def AssignMul_def AssignDiv_def
      VectorizedAssignAdd_def VectorizedAssignSub_def VectorizedAssignMul_def
      VectorizedAssignDiv_def scalar_functor_empty vectorized_functor_empty VectorizedAssign_empty)




section \<open>Properties of the selectors\<close>

lemma resolve_singleton: "resolve [f] = Inr f"
  by simp

lemma select_vector_mode_NONE: "(select_vector_mode b E R = NONE) = (\<not> are_vectorizable b E R)"
  by (simp add: select_vector_mode_def are_vectorizable_def)

lemma assign_selectors_some: "True \<in> set (assign_selectors b E R)"
  by (auto simp: assign_selectors_def fast_assign_def gpu_assign_def vectorized_assign_def
      direct_assign_def standard_assign_def all_dma_def)

lemma assign_selectors_disjoint:
  "\<not> (fast_assign E R \<and> gpu_assign E R)"
  "\<not> (fast_assign E R \<and> direct_assign b E R)"
  "\<not> (fast_assign E R \<and> standard_assign E R)"
  "\<not> (gpu_assign E R \<and> vectorized_assign b E R)"
  "\<not> (gpu_assign E R \<and> direct_assign b E R)"
  "\<not> (vectorized_assign b E R \<and> direct_assign b E R)"
  "\<not> (direct_assign b E R \<and> standard_assign E R)"
  by (auto simp: fast_assign_def gpu_assign_def vectorized_assign_def direct_assign_def
      standard_assign_def all_dma_def)

text \<open>Claim C2. That exactly one of the five plain-assign selectors holds for every pair of
  types fails on the code. For two dense \<^verbatim>\<open>float\<close> matrices in a build with SSE3 the
  selectors \<^verbatim>\<open>fast_assign\<close> and \<^verbatim>\<open>vectorized_assign\<close> hold together: two overloads
  of \<^verbatim>\<open>assign_evaluate_impl\<close> are enabled and the call is ambiguous.\<close>
theorem assign_selectors_overlap:
  "assign_selectors sse3_build (dense T_float) (dense T_float) = [True, False, True, False, False]
   \<and> fast_assign (dense T_float) (dense T_float)
   \<and> vectorized_assign sse3_build (dense T_float) (dense T_float)
   \<and> enabled (assign_evaluate_impl_overloads sse3_build (dense T_float) (dense T_float))
       = [Fast_assign_full, Vectorized_assign]
   \<and> assign_evaluate_impl sse3_build (dense T_float) (dense T_float) = Inl Ambiguous_call"
  by (simp add: assign_selectors_def assign_evaluate_impl_def assign_evaluate_impl_overloads_def
      enabled_def fast_assign_def gpu_assign_def vectorized_assign_def direct_assign_def
      standard_assign_def all_dma_def all_gpu_computable_def are_vectorizable_def
      are_vectorizable_select_def dense_def sse3_build_def)

lemma div_evaluate_cases:
  "div_evaluate b E R =
     Inr (if vectorized_compound_div b E R then Vectorized_compound
          else if has_direct_access R then Direct_compound
          else Standard_compound)"
  by (simp add: div_evaluate_def div_evaluate_overloads_def enabled_def
      standard_compound_div_def direct_compound_div_def)

text \<open>Claim C6. The vectorized compound divide is selected only when the element type of
  the source expression is floating-point or complex; for any other element type
  \<^verbatim>\<open>div_evaluate\<close> dispatches to the direct implementation when the destination has
  direct memory access and to the standard one otherwise.\<close>
theorem compound_div_vectorized_only_floating:
  "(vectorized_compound_div b E R \<longrightarrow> is_floating_t (value_t E) \<or> is_complex_t (value_t E))
   \<and> (div_evaluate b E R = Inr Vectorized_compound \<longrightarrow>
        is_floating_t (value_t E) \<or> is_complex_t (value_t E))
   \<and> (\<not> is_floating_t (value_t E) \<and> \<not> is_complex_t (value_t E) \<longrightarrow>
        div_evaluate b E R = Inr (if has_direct_access R then Direct_compound else Standard_compound))"
  unfolding div_evaluate_cases by (auto simp: vectorized_compound_div_def)

theorem compound_div_vectorized_only_floating_witness:
  "div_evaluate sse3_build (dense T_int) (dense T_int) = Inr Direct_compound
   \<and> div_evaluate sse3_build (dense T_float) (dense T_float) = Inr Vectorized_compound
   \<and> is_floating_t (value_t (dense T_float))"
  using compound_div_vectorized_only_floating [of sse3_build "dense T_int" "dense T_int"]
    compound_div_vectorized_only_floating [of sse3_build "dense T_float" "dense T_float"]
  by (simp add: div_evaluate_cases vectorized_compound_div_def are_vectorizable_def
      are_vectorizable_select_def is_floating_t_def is_complex_t_def dense_def sse3_build_def)

section \<open>Properties of the backend selection\<close>










section \<open>Properties of the scalar expression\<close>

text \<open>Claim C9. A scalar expression returns its value from \<^verbatim>\<open>read_flat\<close>,
  \<^verbatim>\<open>operator[]\<close>, \<^verbatim>\<open>operator()\<close> and in every lane of \<^verbatim>\<open>load\<close>, at every index;
  \<^verbatim>\<open>alias\<close> returns false for every expression. So its reads depend neither on the
  position nor on the destination memory, and with a scalar source the vectorized assign
  over a range \<open>[first, lasti)\<close> streams exactly when streaming is on and the range is
  larger than the threshold.\<close>
theorem scalar_reads_its_value:
  "scalar_read_flat s d = scalar_value s
   \<and> scalar_subscript s d = scalar_value s
   \<and> scalar_call s args = scalar_value s
   \<and> scalar_load W s d = replicate W (scalar_value s)
   \<and> scalar_alias s e = False
   \<and> scalar_reader s lhs d = scalar_reader s lhs' d'
   \<and> (first \<le> lasti \<longrightarrow>
        (fst (VectorizedAssign cfg all_padded elem_size W (scalar_alias s e) (scalar_reader s) first lasti lhs)
          = Streaming_path)
        = (streaming cfg \<and> lasti - first > cache_size cfg div (elem_size * 3)))"
  by (simp add: scalar_read_flat_def scalar_subscript_def scalar_call_def scalar_load_def
      scalar_alias_def scalar_reader_def VectorizedAssign_def use_streaming_def Let_def)

theorem scalar_reads_its_value_witness:
  "scalar_read_flat \<lparr>scalar_value = (3::int)\<rparr> 5 = 3
   \<and> fst (VectorizedAssign example_config False 4 4
             (scalar_alias \<lparr>scalar_value = (3::int)\<rparr> (\<lambda>j. int j))
             (scalar_reader \<lparr>scalar_value = 3\<rparr>) 0 100 (\<lambda>j. int j)) = Streaming_path"
  using scalar_reads_its_value [where s = "\<lparr>scalar_value = (3::int)\<rparr>" and d = 5
      and args = "[1, 2]" and W = 4 and e = "\<lambda>j. int j" and lhs = "\<lambda>j. int j"
      and lhs' = "\<lambda>j. 0" and d' = 7 and first = 0 and lasti = 100 and cfg = example_config
      and all_padded = False and elem_size = 4]
  by (simp add: example_config_def scalar_alias_def)

section \<open>Properties of the vectorized plain assignment\<close>

text \<open>Claim C4. When \<^verbatim>\<open>rhs.alias(lhs)\<close> holds, the vectorized plain assignment takes
  the branch with the ordinary vector stores, and its result is the result of that branch;
  over a range \<open>[first, lasti)\<close> the streaming branch is taken exactly when streaming is
  on, the size of the range exceeds the cache size divided by three times the element size,
  and the source does not alias the destination.\<close>
theorem aliased_assign_never_streams:
  "(alias \<longrightarrow>
      VectorizedAssign cfg all_padded elem_size W alias rhs first lasti lhs
        = (Cached_path,
           cached_stores (remainder_needed cfg all_padded) W rhs first
             (vector_last (remainder_needed cfg all_padded) W first lasti) lasti lhs))
   \<and> (first \<le> lasti \<longrightarrow>
        (fst (VectorizedAssign cfg all_padded elem_size W alias rhs first lasti lhs) = Streaming_path)
        = (streaming cfg \<and> lasti - first > cache_size cfg div (elem_size * 3) \<and> \<not> alias))"
  by (simp add: VectorizedAssign_def use_streaming_def Let_def)

theorem aliased_assign_never_streams_witness:
  "fst (VectorizedAssign example_config False 4 4 True (\<lambda>lhs j. lhs j) 0 100 (\<lambda>j. int j)) = Cached_path
   \<and> fst (VectorizedAssign example_config False 4 4 False (\<lambda>lhs j. 7) 0 100 (\<lambda>j. int j)) = Streaming_path"
  using aliased_assign_never_streams [of True example_config False 4 4 "\<lambda>lhs j. lhs j" 0 100 "\<lambda>j. int j"]
    aliased_assign_never_streams [of False example_config False 4 4 "\<lambda>lhs j. 7" 0 100 "\<lambda>j. int j"]
  by (simp add: example_config_def)

section \<open>Properties of the sub matrix view\<close>

lemma flat_index_bounds:
  fixes J M N :: nat
  assumes "J < M * N"
  shows "J div N < M" and "J mod N < N" and "J mod M < M" and "J div M < N"
proof -
  have N: "0 < N" using assms by (cases N) simp_all
  have M: "0 < M" using assms by (cases M) simp_all
  show "J div N < M" using assms N by (simp add: less_mult_imp_div_less)
  show "J mod N < N" using N by simp
  show "J mod M < M" using M by simp
  show "J div M < N" using assms M by (simp add: less_mult_imp_div_less mult.commute)
qed

lemma unat_less_product:
  fixes j m n :: size_t
  assumes "j < m * n"
  shows "unat j < unat m * unat n"
proof -
  have "unat j < unat (m * n)" using assms by (simp add: word_less_nat_alt)
  also have "unat (m * n) \<le> unat m * unat n"
    by (simp add: unat_word_ariths)
  finally show ?thesis .
qed

lemma unat_add_exact:
  fixes x y :: size_t
  assumes "unat x + unat y < 2 ^ 64"
  shows "unat (x + y) = unat x + unat y"
  using assms unat_add_lem [of x y] by simp

lemma unat_mult_exact:
  fixes x y :: size_t
  assumes "unat x * unat y < 2 ^ 64"
  shows "unat (x * y) = unat x * unat y"
  using assms unat_mult_lem [of x y] by simp

lemma cell_inside:
  fixes r c R C :: nat
  assumes "r < R" and "c < C"
  shows "r * C + c < R * C"
proof -
  have "r * C + c < r * C + C" using assms(2) by simp
  also have "\<dots> = (r + 1) * C" by simp
  also have "\<dots> \<le> R * C" using assms(1) by (intro mult_le_mono1) simp
  finally show ?thesis .
qed

lemma row_major_index_exact:
  fixes bi bj bn r c :: size_t
  assumes "unat bi + unat r < B" and "unat bj + unat c < unat bn" and "B * unat bn < 2 ^ 64"
  shows "unat ((bi + r) * bn + (bj + c)) = (unat bi + unat r) * unat bn + (unat bj + unat c)"
proof -
  have cell: "(unat bi + unat r) * unat bn + (unat bj + unat c) < B * unat bn"
    by (rule cell_inside [OF assms(1,2)])
  have bn: "unat bn < 2 ^ 64" using unsigned_less [of bn] by simp
  have i: "unat (bi + r) = unat bi + unat r"
  proof (rule unat_add_exact)
    have "unat bi + unat r \<le> (unat bi + unat r) * unat bn" using assms(2) by (cases "unat bn") simp_all
    then show "unat bi + unat r < 2 ^ 64" using cell assms(3) by linarith
  qed
  have j: "unat (bj + c) = unat bj + unat c"
    by (rule unat_add_exact) (use assms(2) bn in linarith)
  have pl: "unat (bi + r) * unat bn < 2 ^ 64"
    unfolding i using cell assms(3) by linarith
  have p: "unat ((bi + r) * bn) = (unat bi + unat r) * unat bn"
    using unat_mult_exact [OF pl] by (simp only: i)
  have sl: "unat ((bi + r) * bn) + unat (bj + c) < 2 ^ 64"
    unfolding p j using cell assms(3) by linarith
  show ?thesis
    using unat_add_exact [OF sl] by (simp only: p j)
qed

text \<open>Claim C10. For a flat index \<open>j\<close> below \<open>m * n\<close>, \<^verbatim>\<open>operator[](j)\<close> of the view
  reads the sub expression at row \<open>base_i + j div n\<close> and column \<open>base_j + j mod n\<close>
  when row-major, and at row \<open>base_i + j mod m\<close> and column \<open>base_j + j div m\<close> when
  column-major; the offsets stay inside the \<open>m \<times> n\<close> window. When the window lies
  inside the sub expression, the index arithmetic does not wrap around and the row and the
  column are inside the sub expression.\<close>
theorem sub_matrix_2d_subscript_inside_window:
  assumes "j < dim_m v * dim_n v"
  shows "(sub_storage_order v = RowMajor \<longrightarrow>
            sub_matrix_2d_subscript v j
              = Inr (sub_expr v ((base_i v + j div dim_n v) * base_n v + (base_j v + j mod dim_n v)))
            \<and> j div dim_n v < dim_m v \<and> j mod dim_n v < dim_n v
            \<and> (window_inside v \<longrightarrow>
                 unat (sub_matrix_2d_index v j)
                   = (unat (base_i v) + unat j div unat (dim_n v)) * unat (base_n v)
                     + (unat (base_j v) + unat j mod unat (dim_n v))
                 \<and> unat (base_i v) + unat j div unat (dim_n v) < unat (base_m v)
                 \<and> unat (base_j v) + unat j mod unat (dim_n v) < unat (base_n v)))
       \<and> (sub_storage_order v \<noteq> RowMajor \<longrightarrow>
            sub_matrix_2d_subscript v j
              = Inr (sub_expr v ((base_i v + j mod dim_m v) + (base_j v + j div dim_m v) * base_m v))
            \<and> j mod dim_m v < dim_m v \<and> j div dim_m v < dim_n v
            \<and> (window_inside v \<longrightarrow>
                 unat (sub_matrix_2d_index v j)
                   = (unat (base_i v) + unat j mod unat (dim_m v))
                     + (unat (base_j v) + unat j div unat (dim_m v)) * unat (base_m v)
                 \<and> unat (base_i v) + unat j mod unat (dim_m v) < unat (base_m v)
                 \<and> unat (base_j v) + unat j div unat (dim_m v) < unat (base_n v)))"
proof -
  note b = flat_index_bounds [OF unat_less_product [OF assms]]
  have w: "j div dim_n v < dim_m v" "j mod dim_n v < dim_n v"
          "j mod dim_m v < dim_m v" "j div dim_m v < dim_n v"
    using b by (simp_all add: word_less_nat_alt unat_div unat_mod)
  have row: "unat (sub_matrix_2d_index v j)
               = (unat (base_i v) + unat j div unat (dim_n v)) * unat (base_n v)
                 + (unat (base_j v) + unat j mod unat (dim_n v))
             \<and> unat (base_i v) + unat j div unat (dim_n v) < unat (base_m v)
             \<and> unat (base_j v) + unat j mod unat (dim_n v) < unat (base_n v)"
    if f: "window_inside v" and o: "sub_storage_order v = RowMajor"
  proof -
    have r: "unat (base_i v) + unat (j div dim_n v) < unat (base_m v)"
      using f b(1) by (simp add: window_inside_def unat_div)
    have c: "unat (base_j v) + unat (j mod dim_n v) < unat (base_n v)"
      using f b(2) by (simp add: window_inside_def unat_mod)
    have s: "unat (base_m v) * unat (base_n v) < 2 ^ 64"
      using f by (simp add: window_inside_def)
    show ?thesis
      using row_major_index_exact [OF r c s] r c o
      by (simp add: sub_matrix_2d_index_def unat_div unat_mod)
  qed
  have col: "unat (sub_matrix_2d_index v j)
               = (unat (base_i v) + unat j mod unat (dim_m v))
                 + (unat (base_j v) + unat j div unat (dim_m v)) * unat (base_m v)
             \<and> unat (base_i v) + unat j mod unat (dim_m v) < unat (base_m v)
             \<and> unat (base_j v) + unat j div unat (dim_m v) < unat (base_n v)"
    if f: "window_inside v" and o: "sub_storage_order v \<noteq> RowMajor"
  proof -
    have r: "unat (base_i v) + unat (j mod dim_m v) < unat (base_m v)"
      using f b(3) by (simp add: window_inside_def unat_mod)
    have c: "unat (base_j v) + unat (j div dim_m v) < unat (base_n v)"
      using f b(4) by (simp add: window_inside_def unat_div)
    have s: "unat (base_n v) * unat (base_m v) < 2 ^ 64"
      using f by (simp add: window_inside_def mult.commute)
    have "unat ((base_j v + j div dim_m v) * base_m v + (base_i v + j mod dim_m v))
            = (unat (base_j v) + unat (j div dim_m v)) * unat (base_m v)
              + (unat (base_i v) + unat (j mod dim_m v))"
      by (rule row_major_index_exact [OF c r s])
    then show ?thesis
      using r c o by (simp add: sub_matrix_2d_index_def unat_div unat_mod add.commute)
  qed
  have sub: "sub_matrix_2d_subscript v j = Inr (sub_expr v (sub_matrix_2d_index v j))"
    using assms by (simp add: sub_matrix_2d_subscript_def)
  show ?thesis
  proof (cases "sub_storage_order v = RowMajor")
    case True
    have "sub_matrix_2d_index v j = (base_i v + j div dim_n v) * base_n v + (base_j v + j mod dim_n v)"
      using True by (simp add: sub_matrix_2d_index_def Let_def)
    then show ?thesis using True sub w(1,2) row by simp
  next
    case False
    have "sub_matrix_2d_index v j = (base_i v + j mod dim_m v) + (base_j v + j div dim_m v) * base_m v"
      using False by (simp add: sub_matrix_2d_index_def Let_def)
    then show ?thesis using False sub w(3,4) col by simp
  qed
qed

theorem sub_matrix_2d_subscript_inside_window_witness:
  "sub_matrix_2d_subscript
     \<lparr>sub_expr = (\<lambda>k. k), sub_storage_order = RowMajor, base_i = 1, base_j = 2,
      dim_m = 2, dim_n = 3, base_m = 4, base_n = 5\<rparr> 4 = Inr 13
   \<and> sub_matrix_2d_subscript
     \<lparr>sub_expr = (\<lambda>k. k), sub_storage_order = ColumnMajor, base_i = 1, base_j = 2,
      dim_m = 2, dim_n = 3, base_m = 4, base_n = 5\<rparr> 5 = Inr 18"
  using sub_matrix_2d_subscript_inside_window [of 4
      "\<lparr>sub_expr = (\<lambda>k. k), sub_storage_order = RowMajor, base_i = 1, base_j = 2,
        dim_m = 2, dim_n = 3, base_m = 4, base_n = 5\<rparr>"]
    sub_matrix_2d_subscript_inside_window [of 5
      "\<lparr>sub_expr = (\<lambda>k. k), sub_storage_order = ColumnMajor, base_i = 1, base_j = 2,
        dim_m = 2, dim_n = 3, base_m = 4, base_n = 5\<rparr>"]
  by simp

section \<open>Properties of the evaluator\<close>

lemma standard_compound_impl_flags: "host_valid_only (standard_compound_impl sync upd expr result)"
  by (simp add: host_valid_only_def standard_compound_impl_def invalidate_gpu_def validate_cpu_def
      index_loop_def Let_def)

lemma direct_compound_impl_flags: "host_valid_only (direct_compound_impl cfg upd expr result)"
  by (simp add: host_valid_only_def direct_compound_impl_def invalidate_gpu_def validate_cpu_def
      Let_def)

lemma vectorized_compound_impl_flags: "host_valid_only (vectorized_compound_impl cfg k upd expr result)"
  by (simp add: host_valid_only_def vectorized_compound_impl_def invalidate_gpu_def validate_cpu_def
      Let_def)

lemma gpu_compound_impl_flags: "device_valid_only (gpu_compound_impl upd x result)"
  by (simp add: device_valid_only_def gpu_compound_impl_def invalidate_cpu_def validate_gpu_def
      Let_def)

lemma assign_impl_flags:
  "host_valid_only (fast_assign_impl conv e result)"
  "host_valid_only (direct_assign_impl cfg expr result)"
  "host_valid_only (vectorized_assign_impl cfg k expr result)"
  "device_valid_only (gpu_assign_impl t1 result)"
  by (simp_all add: host_valid_only_def device_valid_only_def fast_assign_impl_def
      direct_assign_impl_def vectorized_assign_impl_def gpu_assign_impl_def invalidate_gpu_def
      validate_cpu_def invalidate_cpu_def validate_gpu_def Let_def)

lemma fast_assign_impl_full_flags:
  assumes "cpu_up_to_date e \<or> gpu_up_to_date e"
  shows "\<exists>r. fast_assign_impl_full True e result = Inr r
             \<and> cpu_up_to_date r = cpu_up_to_date e \<and> gpu_up_to_date r = gpu_up_to_date e"
  using assms
  by (cases "cpu_up_to_date e"; cases "gpu_up_to_date e")
     (simp_all add: fast_assign_impl_full_def validate_cpu_def invalidate_cpu_def
       invalidate_gpu_def gpu_copy_from_def ensure_gpu_allocated_def Let_def)

lemma standard_assign_impl_flags:
  "cpu_up_to_date (standard_assign_impl expr result) = cpu_up_to_date result
   \<and> gpu_up_to_date (standard_assign_impl expr result) = gpu_up_to_date result"
  by (simp add: standard_assign_impl_def index_loop_def)

text \<open>Claim C1, as stated, fails for the fast copy: from a source that is valid on both
  sides the destination comes out valid on both sides.\<close>
theorem fast_copy_keeps_both_sides_valid:
  "(case fast_assign_impl_full True both_valid fresh of
      Inr r \<Rightarrow> cpu_up_to_date r \<and> gpu_up_to_date r \<and> \<not> host_valid_only r
    | Inl e \<Rightarrow> False)"
  by (simp add: fast_assign_impl_full_def both_valid_def fresh_def validate_cpu_def
      invalidate_cpu_def invalidate_gpu_def gpu_copy_from_def ensure_gpu_allocated_def
      host_valid_only_def Let_def)

text \<open>Claim C1, as amended. After the direct and the vectorized assign, the converting fast
  copy, every host implementation of a compound operation (standard, direct, vectorized
  add, sub, mul, div) and the modulo, the destination is valid on the host and invalid on
  the device. After every accelerator implementation it is valid on the device and invalid
  on the host. After the fast copy between equal element types (in a CUDA build, from a
  source that is valid on some side) the destination has the two flags of the source.\<close>
theorem coherency_after_operation:
  fixes expr :: "('a::{plus,minus,uminus,times,divide,one,modulo}) reader"
  shows
  "host_valid_only (fast_assign_impl conv e' result)
   \<and> host_valid_only (direct_assign_impl cfg expr result)
   \<and> host_valid_only (vectorized_assign_impl cfg k expr result)
   \<and> device_valid_only (gpu_assign_impl t1 result)
   \<and> host_valid_only (standard_compound_add_impl expr result)
   \<and> host_valid_only (direct_compound_add_impl cfg expr result)
   \<and> host_valid_only (vectorized_compound_add_impl cfg k expr result)
   \<and> device_valid_only (gpu_assign_add_impl t1 result)
   \<and> device_valid_only (gpu_assign_add_scalar_impl s result)
   \<and> host_valid_only (standard_compound_sub_impl expr result)
   \<and> host_valid_only (direct_compound_sub_impl cfg expr result)
   \<and> host_valid_only (vectorized_compound_sub_impl cfg k expr result)
   \<and> device_valid_only (gpu_compound_sub_impl t1 result)
   \<and> device_valid_only (gpu_compound_sub_scalar_impl s result)
   \<and> host_valid_only (standard_compound_mul_impl expr result)
   \<and> host_valid_only (direct_compound_mul_impl cfg expr result)
   \<and> host_valid_only (vectorized_compound_mul_impl cfg k expr result)
   \<and> device_valid_only (gpu_compound_mul_impl t1 result)
   \<and> device_valid_only (gpu_compound_mul_scalar_impl s result)
   \<and> host_valid_only (standard_compound_div_impl expr result)
   \<and> host_valid_only (direct_compound_div_impl cfg expr result)
   \<and> host_valid_only (vectorized_compound_div_impl cfg k expr result)
   \<and> device_valid_only (gpu_compound_div_impl t1 result)
   \<and> device_valid_only (gpu_compound_div_scalar_impl s result)
   \<and> host_valid_only (mod_evaluate expr result)
   \<and> (cpu_up_to_date e \<or> gpu_up_to_date e \<longrightarrow>
        (\<exists>r. fast_assign_impl_full True e result = Inr r
              \<and> cpu_up_to_date r = cpu_up_to_date e \<and> gpu_up_to_date r = gpu_up_to_date e))"
  using fast_assign_impl_full_flags [of e result]
  by (simp add: assign_impl_flags standard_compound_impl_flags direct_compound_impl_flags
      vectorized_compound_impl_flags gpu_compound_impl_flags
      standard_compound_add_impl_def direct_compound_add_impl_def vectorized_compound_add_impl_def
      gpu_assign_add_impl_def gpu_assign_add_scalar_impl_def
      standard_compound_sub_impl_def direct_compound_sub_impl_def vectorized_compound_sub_impl_def
      gpu_compound_sub_impl_def gpu_compound_sub_scalar_impl_def
      standard_compound_mul_impl_def direct_compound_mul_impl_def vectorized_compound_mul_impl_def
      gpu_compound_mul_impl_def gpu_compound_mul_scalar_impl_def
      standard_compound_div_impl_def direct_compound_div_impl_def vectorized_compound_div_impl_def
      gpu_compound_div_impl_def gpu_compound_div_scalar_impl_def mod_evaluate_def)

theorem coherency_after_operation_witness:
  "(\<exists>r. fast_assign_impl_full True (invalidate_gpu both_valid) (gpu_assign_impl (\<lambda>j. 1) fresh) = Inr r
         \<and> cpu_up_to_date r \<and> \<not> gpu_up_to_date r)
   \<and> device_valid_only (gpu_assign_impl (\<lambda>j. 1) fresh)
   \<and> host_valid_only (direct_assign_impl example_config (\<lambda>lhs j. 7) (gpu_assign_impl (\<lambda>j. 1) fresh))
   \<and> device_valid_only (gpu_assign_add_scalar_impl \<lparr>scalar_value = 3\<rparr> (gpu_assign_impl (\<lambda>j. 1) fresh))"
  using coherency_after_operation [of id both_valid "gpu_assign_impl (\<lambda>j. 1) fresh" example_config
      "\<lambda>lhs j. 7"
      "\<lparr>k_all_padded = False, k_elem_size = 4, k_pad_lanes = 4, k_lanes = 4, k_alias = False\<rparr>"
      "\<lambda>j. 1" "\<lparr>scalar_value = 3\<rparr>" "invalidate_gpu both_valid"]
    coherency_after_operation [of id both_valid fresh example_config
      "\<lambda>lhs j. 7"
      "\<lparr>k_all_padded = False, k_elem_size = 4, k_pad_lanes = 4, k_lanes = 4, k_alias = False\<rparr>"
      "\<lambda>j. 1" "\<lparr>scalar_value = 3\<rparr>" "invalidate_gpu both_valid"]
  by (simp add: both_valid_def invalidate_gpu_def)

section \<open>Properties of the transposition\<close>

lemma standard_assign_impl_cell:
  assumes "k < csize result"
  shows "cpu_mem (standard_assign_impl (\<lambda>lhs. f) result) k = f k"
proof -
  have "cell_local (\<lambda>lhs. f)" by (simp add: cell_local_def)
  then show ?thesis
    using assms
    by (simp add: standard_assign_impl_def index_loop_def remainder_loop_elementwise elementwise_def)
qed

lemma row_major_cell:
  fixes i j m n :: nat
  assumes "i < m" and "j < n"
  shows "i * n + j < m * n" and "(i * n + j) div n = i" and "(i * n + j) mod n = j"
  using assms cell_inside [OF assms] by simp_all

lemma column_major_cell:
  fixes i j m n :: nat
  assumes "i < m" and "j < n"
  shows "i + j * m < m * n" and "(i + j * m) div m = j" and "(i + j * m) mod m = i"
  using assms cell_inside [OF assms(2,1)] by (simp_all add: add.commute mult.commute)

lemma assign_evaluate_2d_values:
  assumes "e_rows x = m" and "e_cols x = n" and "csize res = m * n" and "i < m" and "j < n"
  shows "result_at (e_order x) m n (assign_evaluate_2d x res) i j = e_at x i j"
    and "e_order x \<noteq> ord \<Longrightarrow>
         result_at ord m n (assign_evaluate_2d (transpose_view x) res) i j = e_at x i j"
proof -
  note r = row_major_cell [OF assms(4,5)] and c = column_major_cell [OF assms(4,5)]
  show "result_at (e_order x) m n (assign_evaluate_2d x res) i j = e_at x i j"
    using assms(1,2,3) r c
    by (cases "e_order x")
       (simp_all add: result_at_def assign_evaluate_2d_def standard_assign_impl_cell read_flat_2d_def)
  show "result_at ord m n (assign_evaluate_2d (transpose_view x) res) i j = e_at x i j"
    if "e_order x \<noteq> ord"
    using that assms(1,2,3) r c
    by (cases "e_order x"; cases ord)
       (simp_all add: result_at_def assign_evaluate_2d_def standard_assign_impl_cell read_flat_2d_def
         transpose_view_def)
qed

text \<open>Claim C5. \<^verbatim>\<open>std_assign_evaluate\<close> assigns the source itself when the source is a
  generator, or the storage orders are equal, or both operands are 1-D; for two 2-D operands
  of different storage orders and a source that is not a generator it assigns the
  transposed view. For a 2-D source that is not a generator, either way the element at row
  \<open>i\<close> and column \<open>j\<close> of the destination, read in the destination's storage order,
  is the element at row \<open>i\<close> and column \<open>j\<close> of the source.\<close>
theorem std_assign_evaluate_transposes:
  "(direct_assign_compatible E R
      = (is_generator E \<or> storage_order E = storage_order R \<or> (dimensions E = 1 \<and> dimensions R = 1)))
   \<and> (direct_assign_compatible E R \<longrightarrow>
        std_assign_evaluate E R ev tr expr result = Inr (ev expr result))
   \<and> (\<not> direct_assign_compatible E R \<and> dimensions E = 2 \<and> dimensions R = 2 \<longrightarrow>
        std_assign_evaluate E R ev tr expr result = Inr (ev (tr expr) result))
   \<and> (\<not> is_generator E \<and> dimensions E = 2 \<and> dimensions R = 2 \<and> storage_order E = e_order x
        \<and> e_rows x = m \<and> e_cols x = n \<and> csize res = m * n \<and> i < m \<and> j < n \<longrightarrow>
        (\<exists>r. std_assign_evaluate E R assign_evaluate_2d transpose_view x res = Inr r
              \<and> r = (if storage_order E = storage_order R then assign_evaluate_2d x res
                      else assign_evaluate_2d (transpose_view x) res)
              \<and> result_at (storage_order R) m n r i j = e_at x i j))"
proof (intro conjI impI)
  show "direct_assign_compatible E R
      = (is_generator E \<or> storage_order E = storage_order R \<or> (dimensions E = 1 \<and> dimensions R = 1))"
    by (simp add: direct_assign_compatible_def all_1d_def)
  show "std_assign_evaluate E R ev tr expr result = Inr (ev expr result)"
    if "direct_assign_compatible E R"
    using that by (simp add: std_assign_evaluate_def)
  show "std_assign_evaluate E R ev tr expr result = Inr (ev (tr expr) result)"
    if "\<not> direct_assign_compatible E R \<and> dimensions E = 2 \<and> dimensions R = 2"
    using that by (simp add: std_assign_evaluate_def all_2d_def)
  assume a: "\<not> is_generator E \<and> dimensions E = 2 \<and> dimensions R = 2 \<and> storage_order E = e_order x
        \<and> e_rows x = m \<and> e_cols x = n \<and> csize res = m * n \<and> i < m \<and> j < n"
  then have v: "e_rows x = m" "e_cols x = n" "csize res = m * n" "i < m" "j < n" by simp_all
  show "\<exists>r. std_assign_evaluate E R assign_evaluate_2d transpose_view x res = Inr r
              \<and> r = (if storage_order E = storage_order R then assign_evaluate_2d x res
                      else assign_evaluate_2d (transpose_view x) res)
              \<and> result_at (storage_order R) m n r i j = e_at x i j"
  proof (cases "storage_order E = storage_order R")
    case True
    then show ?thesis
      using a assign_evaluate_2d_values(1) [OF v]
      by (simp add: std_assign_evaluate_def direct_assign_compatible_def)
  next
    case False
    then have "e_order x \<noteq> storage_order R" using a by simp
    then show ?thesis
      using a False assign_evaluate_2d_values(2) [OF v, of "storage_order R"]
      by (simp add: std_assign_evaluate_def direct_assign_compatible_def all_1d_def all_2d_def)
  qed
qed

theorem std_assign_evaluate_transposes_witness:
  "\<exists>r. std_assign_evaluate ((dense T_int)\<lparr>storage_order := ColumnMajor\<rparr>) (dense T_int)
          assign_evaluate_2d transpose_view
          \<lparr>e_rows = 2, e_cols = 3, e_order = ColumnMajor, e_at = (\<lambda>i j. 10 * int i + int j)\<rparr>
          (fresh\<lparr>csize := 6\<rparr>) = Inr r
       \<and> r = assign_evaluate_2d
               (transpose_view \<lparr>e_rows = 2, e_cols = 3, e_order = ColumnMajor, e_at = (\<lambda>i j. 10 * int i + int j)\<rparr>)
               (fresh\<lparr>csize := 6\<rparr>)
       \<and> result_at RowMajor 2 3 r 1 2 = 12"
  using std_assign_evaluate_transposes [of "(dense T_int)\<lparr>storage_order := ColumnMajor\<rparr>" "dense T_int"
      assign_evaluate_2d transpose_view
      "\<lparr>e_rows = 2, e_cols = 3, e_order = ColumnMajor, e_at = (\<lambda>i j. 10 * int i + int j)\<rparr>"
      "fresh\<lparr>csize := 6\<rparr>"
      "\<lparr>e_rows = 2, e_cols = 3, e_order = ColumnMajor, e_at = (\<lambda>i j. 10 * int i + int j)\<rparr>"
      2 3 "fresh\<lparr>csize := 6\<rparr>" 1 2]
  by (auto simp: dense_def fresh_def)

end
